theory Spec2Isabelle
  imports Main "HOL-Library.AList"
begin

section \<open>Validators for the text operations\<close>

text \<open>
  A shallow embedding of \<^verbatim>\<open>mindspore/dataset/text/validators.py\<close>. Every guard of that
  file is a decorator of one shape:
  \<^verbatim>\<open>
  def check_xxx(method):
      @wraps(method)
      def new_method(self, *args, **kwargs):
          [p1, ..., pk], _ = parse_user_args(method, *args, **kwargs)
          ... checks, each of which may raise ...
          return method(self, *args, **kwargs)
      return new_method
  \<close>
  The checks of each guard are modelled as a function from the resolved parameters to
  an error or the call that is handed to the wrapped method; the common wrapper is
  \<open>new_method\<close>.
\<close>

subsection \<open>Python values\<close>

text \<open>
  The runtime types the guards distinguish, and the values of these types. Python's
  unbounded integers are \<open>int\<close>; \<open>bool\<close> is a subclass of \<open>int\<close>. \<open>VVocab\<close> is a
  \<^verbatim>\<open>cde.Vocab\<close> object, \<open>VType\<close> a \<^verbatim>\<open>typing.Type\<close> object (given by its name),
  \<open>VFunc\<close> an invocable value. \<open>VFloat m e\<close> is the finite floating-point number
  \<open>m \<cdot> 2\<^sup>e\<close>; infinities, NaN and objects of user classes are outside the universe.
\<close>

datatype py_type = TNone | TBool | TInt | TFloat | TStr | TList | TTuple | TDict | TVocab
  | TType | TFunction

datatype pyval =
    VNone
  | VBool bool
  | VInt int
  | VFloat int int
  | VStr string
  | VList "pyval list"
  | VTuple "pyval list"
  | VDict "(pyval \<times> pyval) list"
  | VVocab nat
  | VType string
  | VFunc nat

fun type_of :: "pyval \<Rightarrow> py_type" where
  "type_of VNone = TNone"
| "type_of (VBool b) = TBool"
| "type_of (VInt n) = TInt"
| "type_of (VFloat m e) = TFloat"
| "type_of (VStr s) = TStr"
| "type_of (VList xs) = TList"
| "type_of (VTuple xs) = TTuple"
| "type_of (VDict kvs) = TDict"
| "type_of (VVocab h) = TVocab"
| "type_of (VType n) = TType"
| "type_of (VFunc f) = TFunction"

text \<open>Python's \<^verbatim>\<open>isinstance(v, t)\<close>: the type of \<open>v\<close> is \<open>t\<close> or a subclass of it.\<close>

definition isinstance :: "pyval \<Rightarrow> py_type \<Rightarrow> bool" where
  "isinstance v t = (type_of v = t \<or> (type_of v = TBool \<and> t = TInt))"

text \<open>Python's \<^verbatim>\<open>callable(v)\<close>.\<close>

definition callable :: "pyval \<Rightarrow> bool" where
  "callable v = (type_of v = TFunction)"

text \<open>
  The integer a value counts as in a comparison (\<^verbatim>\<open>True\<close> is 1 and \<^verbatim>\<open>False\<close> is 0);
  \<open>None\<close> where Python's order comparison with an integer raises \<^verbatim>\<open>TypeError\<close>.
\<close>

fun as_int :: "pyval \<Rightarrow> int option" where
  "as_int (VInt n) = Some n"
| "as_int (VBool b) = Some (if b then 1 else 0)"
| "as_int _ = None"

text \<open>
  The number a value counts as in an order comparison, as mantissa and binary exponent
  (an integer has exponent 0); \<open>None\<close> where Python's order comparison with an integer
  raises \<^verbatim>\<open>TypeError\<close>. \<open>less_int x n\<close> is \<^verbatim>\<open>x < n\<close> and \<open>greater_int x n\<close> is
  \<^verbatim>\<open>x > n\<close> for an integer \<open>n\<close>; Python compares a float with an integer exactly.
\<close>

fun as_number :: "pyval \<Rightarrow> (int \<times> int) option" where
  "as_number (VInt n) = Some (n, 0)"
| "as_number (VBool b) = Some (if b then 1 else 0, 0)"
| "as_number (VFloat m e) = Some (m, e)"
| "as_number _ = None"

definition less_int :: "int \<times> int \<Rightarrow> int \<Rightarrow> bool" where
  "less_int x n =
     (if 0 \<le> snd x then fst x * 2 ^ nat (snd x) < n else fst x < n * 2 ^ nat (- snd x))"

definition greater_int :: "int \<times> int \<Rightarrow> int \<Rightarrow> bool" where
  "greater_int x n =
     (if 0 \<le> snd x then n < fst x * 2 ^ nat (snd x) else n * 2 ^ nat (- snd x) < fst x)"

text \<open>
  \<open>int_of\<close>, \<open>str_of\<close> and \<open>item\<close> read a value the source has already checked to be
  an integer, a text, or a sequence that is long enough.
\<close>

definition int_of :: "pyval \<Rightarrow> int" where
  "int_of v = (case as_int v of Some n \<Rightarrow> n | None \<Rightarrow> 0)"

fun str_of :: "pyval \<Rightarrow> string" where
  "str_of (VStr s) = s"
| "str_of _ = []"

fun items :: "pyval \<Rightarrow> pyval list" where
  "items (VList xs) = xs"
| "items (VTuple xs) = xs"
| "items _ = []"

fun dict_items :: "pyval \<Rightarrow> (pyval \<times> pyval) list" where
  "dict_items (VDict kvs) = kvs"
| "dict_items _ = []"

definition item :: "pyval \<Rightarrow> nat \<Rightarrow> pyval" where
  "item v i = (if i < length (items v) then items v ! i else VNone)"

text \<open>Python's \<^verbatim>\<open>str(i)\<close> for a natural number, as used by \<^verbatim>\<open>"gram[{0}]".format(i)\<close>.\<close>

definition digit :: "nat \<Rightarrow> char" where
  "digit d = ''0123456789'' ! d"

fun str_nat :: "nat \<Rightarrow> string" where
  "str_nat n = (if n < 10 then [digit n] else str_nat (n div 10) @ [digit (n mod 10)])"

declare str_nat.simps [simp del]

subsection \<open>Violations\<close>

text \<open>
  The rule a library checker found unmet, and the message of a violation: the literal
  text raised by the source (\<open>Text\<close>), a text around the rendering of a set of words
  (\<open>TextSet\<close>, for \<^verbatim>\<open>"..." + str(intersect) + "."\<close>), or the name a library checker was
  handed together with the unmet rule (\<open>Unmet\<close>). The name is a value, not a text: Python
  hands over whatever the caller wrote in that position.
\<close>

datatype rule = OfType "py_type list" | Within int int | Positive

datatype message =
    Text string
  | TextSet string "string set" string
  | Unmet pyval rule

text \<open>
  \<^verbatim>\<open>TypeError\<close> is \<open>TypeViolation\<close>, \<^verbatim>\<open>ValueError\<close> is \<open>ValueViolation\<close>; the failure
  of the argument binding is \<open>ArityViolation\<close>.
\<close>

datatype error = TypeViolation message | ValueViolation message | ArityViolation

text \<open>Sequencing of two statements: the second runs only if the first did not raise.\<close>

definition then_do :: "error + 'a \<Rightarrow> error + 'b \<Rightarrow> error + 'b" where
  "then_do a b = (case a of Inl e \<Rightarrow> Inl e | Inr _ \<Rightarrow> b)"

text \<open>\<^verbatim>\<open>if cond: raise e\<close>.\<close>

definition raise_if :: "bool \<Rightarrow> error \<Rightarrow> error + unit" where
  "raise_if cond e = (if cond then Inl e else Inr ())"

subsection \<open>The library checkers of \<^verbatim>\<open>core/validator_helpers.py\<close>\<close>

text \<open>
  Modelled from the spec: the constant \<^verbatim>\<open>INT32_MAX\<close> of \<^verbatim>\<open>validator_helpers\<close>, the
  largest signed 32-bit integer.
\<close>

definition INT32_MAX :: int where
  "INT32_MAX = 2147483647"

text \<open>
  Modelled from the spec: the bounds of a non-negative 32-bit integer used by
  \<^verbatim>\<open>check_uint32\<close>.
\<close>

definition UINT32_MAX :: int where
  "UINT32_MAX = 4294967295"

text \<open>
  Modelled from the spec: \<^verbatim>\<open>type_check(arg, types, arg_name)\<close> of \<^verbatim>\<open>validator_helpers\<close>,
  "runtime type membership in an allowed type set"; a failure is a \<open>TypeViolation\<close>
  naming the parameter and the unmet constraint.
\<close>

definition type_check :: "pyval \<Rightarrow> py_type list \<Rightarrow> pyval \<Rightarrow> error + unit" where
  "type_check arg types arg_name =
     (if type_of arg \<in> set types then Inr ()
      else Inl (TypeViolation (Unmet arg_name (OfType types))))"

text \<open>
  Modelled from the spec: \<^verbatim>\<open>type_check_list(args, types, arg_names)\<close> of
  \<^verbatim>\<open>validator_helpers\<close>, the type check of each value of a list under the name at the
  same position, in order.
\<close>

fun type_check_list :: "pyval list \<Rightarrow> py_type list \<Rightarrow> pyval list \<Rightarrow> error + unit" where
  "type_check_list (a # as) types (n # ns) =
     then_do (type_check a types n) (type_check_list as types ns)"
| "type_check_list _ types _ = Inr ()"

text \<open>
  Modelled from the spec: \<^verbatim>\<open>check_value(value, valid_range, arg_name)\<close> of
  \<^verbatim>\<open>validator_helpers\<close>, "value membership in an allowed closed numeric range"; a value
  outside the range is a \<open>ValueViolation\<close>, a value that has no order with an integer a
  \<open>TypeViolation\<close>.
\<close>

definition check_value :: "pyval \<Rightarrow> int \<times> int \<Rightarrow> pyval \<Rightarrow> error + unit" where
  "check_value v valid_range arg_name =
     (case as_number v of
        None \<Rightarrow> Inl (TypeViolation (Unmet arg_name (Within (fst valid_range) (snd valid_range))))
      | Some x \<Rightarrow>
          if less_int x (fst valid_range) \<or> greater_int x (snd valid_range)
          then Inl (ValueViolation (Unmet arg_name (Within (fst valid_range) (snd valid_range))))
          else Inr ())"

text \<open>
  Modelled from the spec: \<^verbatim>\<open>check_positive(value, arg_name)\<close> of \<^verbatim>\<open>validator_helpers\<close>,
  the checker for positivity.
\<close>

definition check_positive :: "pyval \<Rightarrow> pyval \<Rightarrow> error + unit" where
  "check_positive v arg_name =
     (case as_number v of
        None \<Rightarrow> Inl (TypeViolation (Unmet arg_name Positive))
      | Some x \<Rightarrow>
          if \<not> greater_int x 0 then Inl (ValueViolation (Unmet arg_name Positive))
          else Inr ())"

text \<open>
  Modelled from the spec: \<^verbatim>\<open>check_uint32(value)\<close> of \<^verbatim>\<open>validator_helpers\<close>, "must be a
  non-negative 32-bit integer". The guards hand it no name, so the violation carries the
  empty name.
\<close>

definition check_uint32 :: "pyval \<Rightarrow> error + unit" where
  "check_uint32 v =
     then_do (type_check v [TInt] (VStr [])) (check_value v (0, UINT32_MAX) (VStr []))"

subsection \<open>Argument binding and the wrapper\<close>

text \<open>
  A call is the positional and the keyword arguments after \<^verbatim>\<open>self\<close>; a keyword
  dictionary is an association list in insertion order. A signature is the declared
  parameter list of the wrapped method after \<^verbatim>\<open>self\<close>: name and default, if any.
\<close>

type_synonym kwargs = "(string \<times> pyval) list"

record call =
  args :: "pyval list"
  kwargs :: kwargs

type_synonym signature = "(string \<times> pyval option) list"

text \<open>
  Modelled from the spec: the binding of the parameters that have no positional
  argument, a part of \<^verbatim>\<open>parse_user_args\<close> of \<^verbatim>\<open>validator_helpers\<close>: the keyword
  argument of that name, else the declared default, else an \<open>ArityViolation\<close>.
\<close>

fun bind_keywords :: "signature \<Rightarrow> kwargs \<Rightarrow> error + pyval list" where
  "bind_keywords [] kw = Inr []"
| "bind_keywords ((name, dflt) # ps) kw =
     (case (case map_of kw name of Some v \<Rightarrow> Some v | None \<Rightarrow> dflt) of
        None \<Rightarrow> Inl ArityViolation
      | Some v \<Rightarrow> (case bind_keywords ps kw of Inl e \<Rightarrow> Inl e | Inr vs \<Rightarrow> Inr (v # vs)))"

text \<open>
  Modelled from the spec: \<^verbatim>\<open>parse_user_args(method, *args, **kwargs)\<close> of
  \<^verbatim>\<open>validator_helpers\<close>: "Resolve raw_args/raw_kwargs against the operation's declared
  parameter list, applying declared defaults for omitted optional parameters. Fails with
  ArityViolation if required parameters are missing or unexpected parameters are
  supplied." The result is the list of the values in the order of the declaration.
\<close>

definition parse_user_args :: "signature \<Rightarrow> call \<Rightarrow> error + pyval list" where
  "parse_user_args sig c =
     (let rest = drop (length (args c)) sig in
      if length (args c) > length sig then Inl ArityViolation
      else if \<exists>k \<in> set (map fst (kwargs c)). k \<notin> set (map fst rest) then Inl ArityViolation
      else (case bind_keywords rest (kwargs c) of
              Inl e \<Rightarrow> Inl e
            | Inr vs \<Rightarrow> Inr (args c @ vs)))"

text \<open>
  The wrapper every decorator returns. The wrapped method is a function of the call it
  is handed and of the state of the engine behind it; it runs only when the binding and
  the checks have passed, on the call the checks return.
\<close>

definition new_method ::
  "(pyval list \<Rightarrow> call \<Rightarrow> error + call) \<Rightarrow> signature \<Rightarrow> (call \<Rightarrow> 's \<Rightarrow> 'r \<times> 's) \<Rightarrow>
   call \<Rightarrow> 's \<Rightarrow> (error + 'r) \<times> 's" where
  "new_method checks sig method c s =
     (case parse_user_args sig c of
        Inl e \<Rightarrow> (Inl e, s)
      | Inr ps \<Rightarrow>
          (case checks ps c of
             Inl e \<Rightarrow> (Inl e, s)
           | Inr c' \<Rightarrow> (case method c' s of (r, s') \<Rightarrow> (Inr r, s'))))"

text \<open>
  Python's failure to unpack a list of \<open>got\<close> values into \<open>expected\<close> names, a
  \<^verbatim>\<open>ValueError\<close>.
\<close>

definition unpack_error :: "nat \<Rightarrow> nat \<Rightarrow> error" where
  "unpack_error expected got =
     ValueViolation (Text
       (if got < expected
        then ''not enough values to unpack (expected '' @ str_nat expected @ '', got ''
               @ str_nat got @ '')''
        else ''too many values to unpack (expected '' @ str_nat expected @ '')''))"

subsection \<open>The guards\<close>

text \<open>
  \<^verbatim>\<open>check_unique_list_of_words(words, arg_name)\<close>: the loop over the words with the set of
  the words seen so far.
\<close>

fun unique_words_loop :: "pyval list \<Rightarrow> string set \<Rightarrow> string \<Rightarrow> error + string set" where
  "unique_words_loop [] words_set arg_name = Inr words_set"
| "unique_words_loop (word # rest) words_set arg_name =
     then_do (type_check word [TStr] (VStr arg_name))
       (if str_of word \<in> words_set
        then Inl (ValueViolation (Text (arg_name @ '' contains duplicate word: '' @ str_of word @ ''.'')))
        else unique_words_loop rest (insert (str_of word) words_set) arg_name)"

definition check_unique_list_of_words :: "pyval \<Rightarrow> string \<Rightarrow> error + string set" where
  "check_unique_list_of_words words arg_name =
     then_do (type_check words [TList] (VStr arg_name))
       (unique_words_loop (items words) {} arg_name)"

text \<open>\<^verbatim>\<open>check_from_list\<close>, parameters \<^verbatim>\<open>[word_list, special_tokens, special_first]\<close>.\<close>

definition check_from_list :: "pyval list \<Rightarrow> call \<Rightarrow> error + call" where
  "check_from_list ps c =
     (case ps of
        [word_list, special_tokens, special_first] \<Rightarrow>
          (case check_unique_list_of_words word_list ''word_list'' of
             Inl e \<Rightarrow> Inl e
           | Inr word_set \<Rightarrow>
               then_do
                 (if special_tokens \<noteq> VNone
                  then (case check_unique_list_of_words special_tokens ''special_tokens'' of
                          Inl e \<Rightarrow> Inl e
                        | Inr token_set \<Rightarrow>
                            (let intersect = word_set \<inter> token_set in
                             if intersect \<noteq> {}
                             then Inl (ValueViolation
                                    (TextSet ''special_tokens and word_list contain duplicate word :''
                                       intersect ''.''))
                             else Inr ()))
                  else Inr ())
                 (then_do (type_check special_first [TBool] (VStr ''special_first''))
                    (Inr c)))
      | _ \<Rightarrow> Inl (unpack_error 3 (length ps)))"

text \<open>\<^verbatim>\<open>check_lookup\<close>, parameters \<^verbatim>\<open>[vocab, unknown_token]\<close>.\<close>

definition check_lookup :: "pyval list \<Rightarrow> call \<Rightarrow> error + call" where
  "check_lookup ps c =
     (case ps of
        [vocab, unknown_token] \<Rightarrow>
          then_do
            (if unknown_token \<noteq> VNone
             then type_check unknown_token [TStr] (VStr ''unknown_token'') else Inr ())
            (then_do
               (type_check vocab [TVocab] (VStr ''vocab is not an instance of cde.Vocab.''))
               (Inr c))
      | _ \<Rightarrow> Inl (unpack_error 2 (length ps)))"

text \<open>
  \<^verbatim>\<open>check_from_file\<close>, parameters
  \<^verbatim>\<open>[file_path, delimiter, vocab_size, special_tokens, special_first]\<close>. The last check
  is \<^verbatim>\<open>type_check(special_first, (bool,), special_first)\<close>: the name handed over is the
  value of the parameter.
\<close>

definition check_from_file :: "pyval list \<Rightarrow> call \<Rightarrow> error + call" where
  "check_from_file ps c =
     (case ps of
        [file_path, delimiter, vocab_size, special_tokens, special_first] \<Rightarrow>
          then_do
            (if special_tokens \<noteq> VNone
             then check_unique_list_of_words special_tokens ''special_tokens'' else Inr {})
            (then_do
               (type_check_list [file_path, delimiter] [TStr]
                  [VStr ''file_path'', VStr ''delimiter''])
               (then_do
                  (if vocab_size \<noteq> VNone
                   then check_value vocab_size (- 1, INT32_MAX) (VStr ''vocab_size'')
                   else Inr ())
                  (then_do (type_check special_first [TBool] special_first)
                     (Inr c))))
      | _ \<Rightarrow> Inl (unpack_error 5 (length ps)))"

text \<open>\<^verbatim>\<open>check_from_dict\<close>, parameter \<^verbatim>\<open>[word_dict]\<close>, and its loop over the items.\<close>

fun from_dict_loop :: "(pyval \<times> pyval) list \<Rightarrow> error + unit" where
  "from_dict_loop [] = Inr ()"
| "from_dict_loop ((word, word_id) # rest) =
     then_do (type_check word [TStr] (VStr ''word''))
       (then_do (type_check word_id [TInt] (VStr ''word_id''))
          (then_do (check_value word_id (0, INT32_MAX) (VStr ''word_id''))
             (from_dict_loop rest)))"

definition check_from_dict :: "pyval list \<Rightarrow> call \<Rightarrow> error + call" where
  "check_from_dict ps c =
     (case ps of
        [word_dict] \<Rightarrow>
          then_do (type_check word_dict [TDict] (VStr ''word_dict''))
            (then_do (from_dict_loop (dict_items word_dict))
               (Inr c))
      | _ \<Rightarrow> Inl (unpack_error 1 (length ps)))"

text \<open>\<^verbatim>\<open>check_jieba_init\<close>, parameters \<^verbatim>\<open>[hmm_path, mp_path, _, with_offsets]\<close>.\<close>

definition check_jieba_init :: "pyval list \<Rightarrow> call \<Rightarrow> error + call" where
  "check_jieba_init ps c =
     (case ps of
        [hmm_path, mp_path, _, with_offsets] \<Rightarrow>
          then_do (raise_if (hmm_path = VNone)
                     (ValueViolation (Text ''The dict of HMMSegment in cppjieba is not provided.'')))
         (then_do (raise_if (\<not> isinstance hmm_path TStr)
                     (TypeViolation (Text ''Wrong input type for hmm_path, should be string.'')))
         (then_do (raise_if (mp_path = VNone)
                     (ValueViolation (Text ''The dict of MPSegment in cppjieba is not provided.'')))
         (then_do (raise_if (\<not> isinstance mp_path TStr)
                     (TypeViolation (Text ''Wrong input type for mp_path, should be string.'')))
         (then_do (raise_if (\<not> isinstance with_offsets TBool)
                     (TypeViolation (Text ''Wrong input type for with_offsets, should be boolean.'')))
            (Inr c)))))
      | _ \<Rightarrow> Inl (unpack_error 4 (length ps)))"

text \<open>\<^verbatim>\<open>check_jieba_add_word\<close>, parameters \<^verbatim>\<open>[word, freq]\<close>.\<close>

definition check_jieba_add_word :: "pyval list \<Rightarrow> call \<Rightarrow> error + call" where
  "check_jieba_add_word ps c =
     (case ps of
        [word, freq] \<Rightarrow>
          then_do (raise_if (word = VNone) (ValueViolation (Text ''word is not provided.'')))
            (then_do (if freq \<noteq> VNone then check_uint32 freq else Inr ())
               (Inr c))
      | _ \<Rightarrow> Inl (unpack_error 2 (length ps)))"

text \<open>
  \<^verbatim>\<open>check_jieba_add_dict\<close> and \<^verbatim>\<open>check_pair_truncate\<close> bind the arguments and check
  nothing else.
\<close>

definition check_jieba_add_dict :: "pyval list \<Rightarrow> call \<Rightarrow> error + call" where
  "check_jieba_add_dict ps c = Inr c"

definition check_pair_truncate :: "pyval list \<Rightarrow> call \<Rightarrow> error + call" where
  "check_pair_truncate ps c = Inr c"

text \<open>\<^verbatim>\<open>check_with_offsets\<close>, parameter \<^verbatim>\<open>[with_offsets]\<close>.\<close>

definition check_with_offsets :: "pyval list \<Rightarrow> call \<Rightarrow> error + call" where
  "check_with_offsets ps c =
     (case ps of
        [with_offsets] \<Rightarrow>
          then_do (raise_if (\<not> isinstance with_offsets TBool)
                     (TypeViolation (Text ''Wrong input type for with_offsets, should be boolean.'')))
            (Inr c)
      | _ \<Rightarrow> Inl (unpack_error 1 (length ps)))"

text \<open>\<^verbatim>\<open>check_unicode_script_tokenizer\<close>, parameters \<^verbatim>\<open>[keep_whitespace, with_offsets]\<close>.\<close>

definition check_unicode_script_tokenizer :: "pyval list \<Rightarrow> call \<Rightarrow> error + call" where
  "check_unicode_script_tokenizer ps c =
     (case ps of
        [keep_whitespace, with_offsets] \<Rightarrow>
          then_do (raise_if (\<not> isinstance keep_whitespace TBool)
                     (TypeViolation (Text ''Wrong input type for keep_whitespace, should be boolean.'')))
         (then_do (raise_if (\<not> isinstance with_offsets TBool)
                     (TypeViolation (Text ''Wrong input type for with_offsets, should be boolean.'')))
            (Inr c))
      | _ \<Rightarrow> Inl (unpack_error 2 (length ps)))"

text \<open>
  \<^verbatim>\<open>check_wordpiece_tokenizer\<close>, parameters
  \<^verbatim>\<open>[vocab, suffix_indicator, max_bytes_per_token, unknown_token, with_offsets]\<close>.
\<close>

definition check_wordpiece_tokenizer :: "pyval list \<Rightarrow> call \<Rightarrow> error + call" where
  "check_wordpiece_tokenizer ps c =
     (case ps of
        [vocab, suffix_indicator, max_bytes_per_token, unknown_token, with_offsets] \<Rightarrow>
          then_do (raise_if (vocab = VNone) (ValueViolation (Text ''vocab is not provided.'')))
         (then_do (raise_if (\<not> isinstance vocab TVocab)
                     (TypeViolation (Text ''Wrong input type for vocab, should be Vocab object.'')))
         (then_do (raise_if (\<not> isinstance suffix_indicator TStr)
                     (TypeViolation (Text ''Wrong input type for suffix_indicator, should be string.'')))
         (then_do (raise_if (\<not> isinstance unknown_token TStr)
                     (TypeViolation (Text ''Wrong input type for unknown_token, should be string.'')))
         (then_do (raise_if (\<not> isinstance with_offsets TBool)
                     (TypeViolation (Text ''Wrong input type for with_offsets, should be boolean.'')))
         (then_do (check_uint32 max_bytes_per_token)
            (Inr c))))))
      | _ \<Rightarrow> Inl (unpack_error 5 (length ps)))"

text \<open>
  \<^verbatim>\<open>check_regex_tokenizer\<close>, parameters
  \<^verbatim>\<open>[delim_pattern, keep_delim_pattern, with_offsets]\<close>.
\<close>

definition check_regex_tokenizer :: "pyval list \<Rightarrow> call \<Rightarrow> error + call" where
  "check_regex_tokenizer ps c =
     (case ps of
        [delim_pattern, keep_delim_pattern, with_offsets] \<Rightarrow>
          then_do (raise_if (delim_pattern = VNone)
                     (ValueViolation (Text ''delim_pattern is not provided.'')))
         (then_do (raise_if (\<not> isinstance delim_pattern TStr)
                     (TypeViolation (Text ''Wrong input type for delim_pattern, should be string.'')))
         (then_do (raise_if (\<not> isinstance keep_delim_pattern TStr)
                     (TypeViolation (Text ''Wrong input type for keep_delim_pattern, should be string.'')))
         (then_do (raise_if (\<not> isinstance with_offsets TBool)
                     (TypeViolation (Text ''Wrong input type for with_offsets, should be boolean.'')))
            (Inr c))))
      | _ \<Rightarrow> Inl (unpack_error 3 (length ps)))"

text \<open>
  \<^verbatim>\<open>check_basic_tokenizer\<close>, parameters
  \<^verbatim>\<open>[lower_case, keep_whitespace, _, preserve_unused, with_offsets]\<close>.
\<close>

definition check_basic_tokenizer :: "pyval list \<Rightarrow> call \<Rightarrow> error + call" where
  "check_basic_tokenizer ps c =
     (case ps of
        [lower_case, keep_whitespace, _, preserve_unused, with_offsets] \<Rightarrow>
          then_do (raise_if (\<not> isinstance lower_case TBool)
                     (TypeViolation (Text ''Wrong input type for lower_case, should be boolean.'')))
         (then_do (raise_if (\<not> isinstance keep_whitespace TBool)
                     (TypeViolation (Text ''Wrong input type for keep_whitespace, should be boolean.'')))
         (then_do (raise_if (\<not> isinstance preserve_unused TBool)
                     (TypeViolation (Text ''Wrong input type for preserve_unused_token, should be boolean.'')))
         (then_do (raise_if (\<not> isinstance with_offsets TBool)
                     (TypeViolation (Text ''Wrong input type for with_offsets, should be boolean.'')))
            (Inr c))))
      | _ \<Rightarrow> Inl (unpack_error 5 (length ps)))"

text \<open>
  \<^verbatim>\<open>check_bert_tokenizer\<close>, parameters
  \<^verbatim>\<open>[vocab, suffix_indicator, max_bytes_per_token, unknown_token, lower_case,
  keep_whitespace, _, preserve_unused_token, with_offsets]\<close>.
\<close>

definition check_bert_tokenizer :: "pyval list \<Rightarrow> call \<Rightarrow> error + call" where
  "check_bert_tokenizer ps c =
     (case ps of
        [vocab, suffix_indicator, max_bytes_per_token, unknown_token, lower_case,
         keep_whitespace, _, preserve_unused_token, with_offsets] \<Rightarrow>
          then_do (raise_if (vocab = VNone) (ValueViolation (Text ''vacab is not provided.'')))
         (then_do (raise_if (\<not> isinstance vocab TVocab)
                     (TypeViolation (Text ''Wrong input type for vocab, should be Vocab object.'')))
         (then_do (raise_if (\<not> isinstance suffix_indicator TStr)
                     (TypeViolation (Text ''Wrong input type for suffix_indicator, should be string.'')))
         (then_do (raise_if (\<not> isinstance max_bytes_per_token TInt)
                     (TypeViolation (Text ''Wrong input type for max_bytes_per_token, should be int.'')))
         (then_do (check_uint32 max_bytes_per_token)
         (then_do (raise_if (\<not> isinstance unknown_token TStr)
                     (TypeViolation (Text ''Wrong input type for unknown_token, should be string.'')))
         (then_do (raise_if (\<not> isinstance lower_case TBool)
                     (TypeViolation (Text ''Wrong input type for lower_case, should be boolean.'')))
         (then_do (raise_if (\<not> isinstance keep_whitespace TBool)
                     (TypeViolation (Text ''Wrong input type for keep_whitespace, should be boolean.'')))
         (then_do (raise_if (\<not> isinstance preserve_unused_token TBool)
                     (TypeViolation (Text ''Wrong input type for preserve_unused_token, should be boolean.'')))
         (then_do (raise_if (\<not> isinstance with_offsets TBool)
                     (TypeViolation (Text ''Wrong input type for with_offsets, should be boolean.'')))
            (Inr c))))))))))
      | _ \<Rightarrow> Inl (unpack_error 9 (length ps)))"

text \<open>
  \<^verbatim>\<open>check_from_dataset\<close>, parameters
  \<^verbatim>\<open>[_, columns, freq_range, top_k, special_tokens, special_first]\<close>. The first block
  rebinds the local variable \<^verbatim>\<open>columns\<close>; \<open>from_dataset_columns\<close> returns its value
  after the block:
  \<^verbatim>\<open>
  if columns is not None:
      if not isinstance(columns, list):
          columns = [columns]
          col_names = ["col_{0}".format(i) for i in range(len(columns))]
          type_check_list(columns, (str,), col_names)
  \<close>
\<close>

definition from_dataset_columns :: "pyval \<Rightarrow> error + pyval" where
  "from_dataset_columns columns =
     (if columns \<noteq> VNone then
        (if \<not> isinstance columns TList then
           (let columns' = [columns];
                col_names = map (\<lambda>i. VStr (''col_'' @ str_nat i)) [0..<length columns']
            in then_do (type_check_list columns' [TStr] col_names) (Inr (VList columns')))
         else Inr columns)
      else Inr columns)"

text \<open>
  The second block, on \<^verbatim>\<open>freq_range\<close>. The loop over the elements raises the same
  error whichever element fails.
\<close>

definition from_dataset_freq_range :: "pyval \<Rightarrow> error + unit" where
  "from_dataset_freq_range freq_range =
     (if freq_range \<noteq> VNone then
        then_do (type_check freq_range [TTuple] (VStr ''freq_range''))
       (then_do (raise_if (length (items freq_range) \<noteq> 2)
                   (ValueViolation (Text
                      ''freq_range needs to be a tuple of 2 integers or an int and a None.'')))
       (then_do (raise_if (list_ex (\<lambda>num. num \<noteq> VNone \<and> \<not> isinstance num TInt) (items freq_range))
                   (ValueViolation (Text
                      ''freq_range needs to be either None or a tuple of 2 integers or an int and a None.'')))
          (if isinstance (item freq_range 0) TInt \<and> isinstance (item freq_range 1) TInt
           then raise_if (int_of (item freq_range 0) > int_of (item freq_range 1)
                            \<or> int_of (item freq_range 0) < 0)
                  (ValueViolation (Text
                     ''frequency range [a,b] should be 0 <= a <= b (a,b are inclusive).''))
           else Inr ())))
      else Inr ())"

definition check_from_dataset :: "pyval list \<Rightarrow> call \<Rightarrow> error + call" where
  "check_from_dataset ps c =
     (case ps of
        [_, columns, freq_range, top_k, special_tokens, special_first] \<Rightarrow>
          then_do (from_dataset_columns columns)
         (then_do (from_dataset_freq_range freq_range)
         (then_do (type_check top_k [TInt, TNone] (VStr ''top_k''))
         (then_do (if isinstance top_k TInt then check_positive top_k (VStr ''top_k'') else Inr ())
         (then_do (type_check special_first [TBool] (VStr ''special_first''))
         (then_do (if special_tokens \<noteq> VNone
                   then check_unique_list_of_words special_tokens ''special_tokens''
                   else Inr {})
            (Inr c))))))
      | _ \<Rightarrow> Inl (unpack_error 6 (length ps)))"

text \<open>
  \<^verbatim>\<open>check_ngram\<close>, parameters \<^verbatim>\<open>[n, left_pad, right_pad, separator]\<close>. The loop
  \<^verbatim>\<open>for i, gram in enumerate(n)\<close> is \<open>grams_loop\<close>, from index \<open>i\<close> on.
\<close>

fun grams_loop :: "nat \<Rightarrow> pyval list \<Rightarrow> error + unit" where
  "grams_loop i [] = Inr ()"
| "grams_loop i (gram # rest) =
     then_do (type_check gram [TInt] (VStr (''gram['' @ str_nat i @ '']'')))
       (then_do (check_positive gram (VStr (''gram_'' @ str_nat i)))
          (grams_loop (Suc i) rest))"

text \<open>
  \<^verbatim>\<open>isinstance(pad, tuple) and len(pad) == 2 and isinstance(pad[0], str) and
  isinstance(pad[1], int)\<close>
\<close>

definition is_pad :: "pyval \<Rightarrow> bool" where
  "is_pad pad = (isinstance pad TTuple \<and> length (items pad) = 2
                 \<and> isinstance (item pad 0) TStr \<and> isinstance (item pad 1) TInt)"

text \<open>
  The guard ends with
  \<^verbatim>\<open>
  kwargs["n"] = n
  kwargs["left_pad"] = left_pad
  kwargs["right_pad"] = right_pad
  kwargs["separator"] = separator
  return method(self, **kwargs)
  \<close>
  so the wrapped method is handed no positional argument.
\<close>

definition check_ngram :: "pyval list \<Rightarrow> call \<Rightarrow> error + call" where
  "check_ngram ps c =
     (case ps of
        [n, left_pad, right_pad, separator] \<Rightarrow>
          (let n = (if isinstance n TInt then VList [n] else n) in
           then_do (raise_if (\<not> (isinstance n TList \<and> n \<noteq> VList []))
                      (ValueViolation (Text ''n needs to be a non-empty list of positive integers.'')))
          (then_do (grams_loop 0 (items n))
          (then_do (raise_if (\<not> is_pad left_pad)
                      (ValueViolation (Text
                         ''left_pad needs to be a tuple of (str, int) str is pad token and int is pad_width.'')))
          (then_do (raise_if (\<not> is_pad right_pad)
                      (ValueViolation (Text
                         ''right_pad needs to be a tuple of (str, int) str is pad token and int is pad_width.'')))
          (then_do (raise_if (\<not> (int_of (item left_pad 1) \<ge> 0 \<and> int_of (item right_pad 1) \<ge> 0))
                      (ValueViolation (Text ''padding width need to be positive numbers.'')))
          (then_do (type_check separator [TStr] (VStr ''separator''))
             (Inr \<lparr>args = [],
                   kwargs = AList.update ''separator'' separator
                             (AList.update ''right_pad'' right_pad
                               (AList.update ''left_pad'' left_pad
                                 (AList.update ''n'' n (kwargs c))))\<rparr>)))))))
      | _ \<Rightarrow> Inl (unpack_error 4 (length ps)))"

text \<open>
  \<^verbatim>\<open>check_to_number\<close>, parameter \<^verbatim>\<open>[data_type]\<close>. The table \<^verbatim>\<open>mstype.number_type\<close> is
  not part of this file and is a parameter.
\<close>

definition check_to_number :: "pyval list \<Rightarrow> pyval list \<Rightarrow> call \<Rightarrow> error + call" where
  "check_to_number number_type ps c =
     (case ps of
        [data_type] \<Rightarrow>
          then_do (type_check data_type [TType] (VStr ''data_type''))
         (then_do (raise_if (data_type \<notin> set number_type)
                     (TypeViolation (Text ''data_type is not numeric data type.'')))
            (Inr c))
      | _ \<Rightarrow> Inl (unpack_error 1 (length ps)))"

text \<open>\<^verbatim>\<open>check_python_tokenizer\<close>, parameter \<^verbatim>\<open>[tokenizer]\<close>.\<close>

definition check_python_tokenizer :: "pyval list \<Rightarrow> call \<Rightarrow> error + call" where
  "check_python_tokenizer ps c =
     (case ps of
        [tokenizer] \<Rightarrow>
          then_do (raise_if (\<not> callable tokenizer)
                     (TypeViolation (Text ''tokenizer is not a callable python function'')))
            (Inr c)
      | _ \<Rightarrow> Inl (unpack_error 1 (length ps)))"

subsection \<open>The contracts\<close>

text \<open>
  The general algorithm of the spec: "Apply an ordered sequence of field-level
  predicates. On the first failing predicate, fail immediately with a Violation naming
  the offending parameter and the unmet constraint; no further predicates run." A
  predicate is given here by whether it fails and by the violation it then raises; a
  contract is the ordered sequence of the predicates of one guard. \<open>first_violation\<close>
  is the violation of the first predicate that fails, \<open>run_contract\<close> the outcome of the
  contract: that violation, or the value to go on with.
\<close>

type_synonym predicate = "bool \<times> error"

fun first_violation :: "predicate list \<Rightarrow> error option" where
  "first_violation [] = None"
| "first_violation (p # rest) = (if fst p then Some (snd p) else first_violation rest)"

definition run_contract :: "predicate list \<Rightarrow> 'a \<Rightarrow> error + 'a" where
  "run_contract ps x = (case first_violation ps of Some e \<Rightarrow> Inl e | None \<Rightarrow> Inr x)"

text \<open>
  The predicates of the library checkers: a value must have one of the given types; a
  value must lie in a closed range; a value must be positive; a value must be a
  non-negative 32-bit integer.
\<close>

definition wrong_type :: "pyval \<Rightarrow> py_type list \<Rightarrow> pyval \<Rightarrow> predicate" where
  "wrong_type v types name = (type_of v \<notin> set types, TypeViolation (Unmet name (OfType types)))"

definition outside :: "pyval \<Rightarrow> int \<Rightarrow> int \<Rightarrow> pyval \<Rightarrow> predicate list" where
  "outside v lo hi name =
     [(as_number v = None, TypeViolation (Unmet name (Within lo hi))),
      (case as_number v of None \<Rightarrow> False | Some x \<Rightarrow> less_int x lo \<or> greater_int x hi,
       ValueViolation (Unmet name (Within lo hi)))]"

definition not_positive :: "pyval \<Rightarrow> pyval \<Rightarrow> predicate list" where
  "not_positive v name =
     [(as_number v = None, TypeViolation (Unmet name Positive)),
      (case as_number v of None \<Rightarrow> False | Some x \<Rightarrow> \<not> greater_int x 0,
       ValueViolation (Unmet name Positive))]"

definition not_uint32 :: "pyval \<Rightarrow> predicate list" where
  "not_uint32 v = wrong_type v [TInt] (VStr []) # outside v 0 UINT32_MAX (VStr [])"

text \<open>
  A list of words: the value must be a list, and each element in turn must be text and
  must not be among the words before it. \<open>words\<close> is the set of the words of a list.
\<close>

fun contract_words :: "string set \<Rightarrow> pyval list \<Rightarrow> string \<Rightarrow> predicate list" where
  "contract_words seen [] name = []"
| "contract_words seen (w # rest) name =
     wrong_type w [TStr] (VStr name)
     # (str_of w \<in> seen,
        ValueViolation (Text (name @ '' contains duplicate word: '' @ str_of w @ ''.'')))
     # contract_words (insert (str_of w) seen) rest name"

definition contract_word_list :: "pyval \<Rightarrow> string \<Rightarrow> predicate list" where
  "contract_word_list v name =
     wrong_type v [TList] (VStr name) # contract_words {} (items v) name"

definition words :: "pyval \<Rightarrow> string set" where
  "words v = set (map str_of (items v))"

text \<open>
  The contract of each guard, in the order of the guards in the file: the predicates that
  the table of the spec lists for the operation, in the order in which the guard applies
  them and each with the violation the guard raises. The last predicate of
  \<open>contract_from_file\<close> carries the value of \<^verbatim>\<open>special_first\<close> as the name, as the guard
  does.
\<close>

definition contract_lookup :: "pyval \<Rightarrow> pyval \<Rightarrow> predicate list" where
  "contract_lookup vocab unknown_token =
     (if unknown_token \<noteq> VNone
      then [wrong_type unknown_token [TStr] (VStr ''unknown_token'')] else [])
     @ [wrong_type vocab [TVocab] (VStr ''vocab is not an instance of cde.Vocab.'')]"

definition contract_from_file ::
  "pyval \<Rightarrow> pyval \<Rightarrow> pyval \<Rightarrow> pyval \<Rightarrow> pyval \<Rightarrow> predicate list" where
  "contract_from_file file_path delimiter vocab_size special_tokens special_first =
     (if special_tokens \<noteq> VNone then contract_word_list special_tokens ''special_tokens''
      else [])
     @ [wrong_type file_path [TStr] (VStr ''file_path''),
        wrong_type delimiter [TStr] (VStr ''delimiter'')]
     @ (if vocab_size \<noteq> VNone then outside vocab_size (- 1) INT32_MAX (VStr ''vocab_size'')
        else [])
     @ [wrong_type special_first [TBool] special_first]"

definition contract_from_list :: "pyval \<Rightarrow> pyval \<Rightarrow> pyval \<Rightarrow> predicate list" where
  "contract_from_list word_list special_tokens special_first =
     contract_word_list word_list ''word_list''
     @ (if special_tokens \<noteq> VNone
        then contract_word_list special_tokens ''special_tokens''
             @ [(words word_list \<inter> words special_tokens \<noteq> {},
                 ValueViolation
                   (TextSet ''special_tokens and word_list contain duplicate word :''
                      (words word_list \<inter> words special_tokens) ''.''))]
        else [])
     @ [wrong_type special_first [TBool] (VStr ''special_first'')]"

definition contract_from_dict :: "pyval \<Rightarrow> predicate list" where
  "contract_from_dict word_dict =
     wrong_type word_dict [TDict] (VStr ''word_dict'')
     # concat (map (\<lambda>(word, word_id).
                      wrong_type word [TStr] (VStr ''word'')
                      # wrong_type word_id [TInt] (VStr ''word_id'')
                      # outside word_id 0 INT32_MAX (VStr ''word_id''))
                (dict_items word_dict))"

definition contract_jieba_init :: "pyval \<Rightarrow> pyval \<Rightarrow> pyval \<Rightarrow> predicate list" where
  "contract_jieba_init hmm_path mp_path with_offsets =
     [(hmm_path = VNone,
       ValueViolation (Text ''The dict of HMMSegment in cppjieba is not provided.'')),
      (\<not> isinstance hmm_path TStr,
       TypeViolation (Text ''Wrong input type for hmm_path, should be string.'')),
      (mp_path = VNone,
       ValueViolation (Text ''The dict of MPSegment in cppjieba is not provided.'')),
      (\<not> isinstance mp_path TStr,
       TypeViolation (Text ''Wrong input type for mp_path, should be string.'')),
      (\<not> isinstance with_offsets TBool,
       TypeViolation (Text ''Wrong input type for with_offsets, should be boolean.''))]"

definition contract_jieba_add_word :: "pyval \<Rightarrow> pyval \<Rightarrow> predicate list" where
  "contract_jieba_add_word word freq =
     (word = VNone, ValueViolation (Text ''word is not provided.''))
     # (if freq \<noteq> VNone then not_uint32 freq else [])"

definition contract_with_offsets :: "pyval \<Rightarrow> predicate list" where
  "contract_with_offsets with_offsets =
     [(\<not> isinstance with_offsets TBool,
       TypeViolation (Text ''Wrong input type for with_offsets, should be boolean.''))]"

definition contract_unicode_script_tokenizer :: "pyval \<Rightarrow> pyval \<Rightarrow> predicate list" where
  "contract_unicode_script_tokenizer keep_whitespace with_offsets =
     [(\<not> isinstance keep_whitespace TBool,
       TypeViolation (Text ''Wrong input type for keep_whitespace, should be boolean.'')),
      (\<not> isinstance with_offsets TBool,
       TypeViolation (Text ''Wrong input type for with_offsets, should be boolean.''))]"

definition contract_wordpiece_tokenizer ::
  "pyval \<Rightarrow> pyval \<Rightarrow> pyval \<Rightarrow> pyval \<Rightarrow> pyval \<Rightarrow> predicate list" where
  "contract_wordpiece_tokenizer vocab suffix_indicator max_bytes_per_token unknown_token
       with_offsets =
     [(vocab = VNone, ValueViolation (Text ''vocab is not provided.'')),
      (\<not> isinstance vocab TVocab,
       TypeViolation (Text ''Wrong input type for vocab, should be Vocab object.'')),
      (\<not> isinstance suffix_indicator TStr,
       TypeViolation (Text ''Wrong input type for suffix_indicator, should be string.'')),
      (\<not> isinstance unknown_token TStr,
       TypeViolation (Text ''Wrong input type for unknown_token, should be string.'')),
      (\<not> isinstance with_offsets TBool,
       TypeViolation (Text ''Wrong input type for with_offsets, should be boolean.''))]
     @ not_uint32 max_bytes_per_token"

definition contract_regex_tokenizer :: "pyval \<Rightarrow> pyval \<Rightarrow> pyval \<Rightarrow> predicate list" where
  "contract_regex_tokenizer delim_pattern keep_delim_pattern with_offsets =
     [(delim_pattern = VNone, ValueViolation (Text ''delim_pattern is not provided.'')),
      (\<not> isinstance delim_pattern TStr,
       TypeViolation (Text ''Wrong input type for delim_pattern, should be string.'')),
      (\<not> isinstance keep_delim_pattern TStr,
       TypeViolation (Text ''Wrong input type for keep_delim_pattern, should be string.'')),
      (\<not> isinstance with_offsets TBool,
       TypeViolation (Text ''Wrong input type for with_offsets, should be boolean.''))]"

definition contract_basic_tokenizer ::
  "pyval \<Rightarrow> pyval \<Rightarrow> pyval \<Rightarrow> pyval \<Rightarrow> predicate list" where
  "contract_basic_tokenizer lower_case keep_whitespace preserve_unused with_offsets =
     [(\<not> isinstance lower_case TBool,
       TypeViolation (Text ''Wrong input type for lower_case, should be boolean.'')),
      (\<not> isinstance keep_whitespace TBool,
       TypeViolation (Text ''Wrong input type for keep_whitespace, should be boolean.'')),
      (\<not> isinstance preserve_unused TBool,
       TypeViolation (Text ''Wrong input type for preserve_unused_token, should be boolean.'')),
      (\<not> isinstance with_offsets TBool,
       TypeViolation (Text ''Wrong input type for with_offsets, should be boolean.''))]"

definition contract_bert_tokenizer ::
  "pyval \<Rightarrow> pyval \<Rightarrow> pyval \<Rightarrow> pyval \<Rightarrow> pyval \<Rightarrow> pyval \<Rightarrow> pyval \<Rightarrow> pyval
   \<Rightarrow> predicate list" where
  "contract_bert_tokenizer vocab suffix_indicator max_bytes_per_token unknown_token lower_case
       keep_whitespace preserve_unused_token with_offsets =
     [(vocab = VNone, ValueViolation (Text ''vacab is not provided.'')),
      (\<not> isinstance vocab TVocab,
       TypeViolation (Text ''Wrong input type for vocab, should be Vocab object.'')),
      (\<not> isinstance suffix_indicator TStr,
       TypeViolation (Text ''Wrong input type for suffix_indicator, should be string.'')),
      (\<not> isinstance max_bytes_per_token TInt,
       TypeViolation (Text ''Wrong input type for max_bytes_per_token, should be int.''))]
     @ not_uint32 max_bytes_per_token
     @ [(\<not> isinstance unknown_token TStr,
         TypeViolation (Text ''Wrong input type for unknown_token, should be string.'')),
        (\<not> isinstance lower_case TBool,
         TypeViolation (Text ''Wrong input type for lower_case, should be boolean.'')),
        (\<not> isinstance keep_whitespace TBool,
         TypeViolation (Text ''Wrong input type for keep_whitespace, should be boolean.'')),
        (\<not> isinstance preserve_unused_token TBool,
         TypeViolation (Text ''Wrong input type for preserve_unused_token, should be boolean.'')),
        (\<not> isinstance with_offsets TBool,
         TypeViolation (Text ''Wrong input type for with_offsets, should be boolean.''))]"

definition contract_columns :: "pyval \<Rightarrow> predicate list" where
  "contract_columns columns =
     (if columns \<noteq> VNone \<and> \<not> isinstance columns TList
      then [wrong_type columns [TStr] (VStr ''col_0'')] else [])"

definition contract_freq_range :: "pyval \<Rightarrow> predicate list" where
  "contract_freq_range freq_range =
     (if freq_range \<noteq> VNone
      then [wrong_type freq_range [TTuple] (VStr ''freq_range''),
            (length (items freq_range) \<noteq> 2,
             ValueViolation (Text
               ''freq_range needs to be a tuple of 2 integers or an int and a None.'')),
            (\<exists>num \<in> set (items freq_range). num \<noteq> VNone \<and> \<not> isinstance num TInt,
             ValueViolation (Text
               ''freq_range needs to be either None or a tuple of 2 integers or an int and a None.'')),
            (isinstance (item freq_range 0) TInt \<and> isinstance (item freq_range 1) TInt
             \<and> (int_of (item freq_range 0) > int_of (item freq_range 1)
                  \<or> int_of (item freq_range 0) < 0),
             ValueViolation (Text
               ''frequency range [a,b] should be 0 <= a <= b (a,b are inclusive).''))]
      else [])"

definition contract_from_dataset ::
  "pyval \<Rightarrow> pyval \<Rightarrow> pyval \<Rightarrow> pyval \<Rightarrow> pyval \<Rightarrow> predicate list" where
  "contract_from_dataset columns freq_range top_k special_tokens special_first =
     contract_columns columns
     @ contract_freq_range freq_range
     @ [wrong_type top_k [TInt, TNone] (VStr ''top_k'')]
     @ (if isinstance top_k TInt then not_positive top_k (VStr ''top_k'') else [])
     @ [wrong_type special_first [TBool] (VStr ''special_first'')]
     @ (if special_tokens \<noteq> VNone then contract_word_list special_tokens ''special_tokens''
        else [])"

text \<open>
  The contract of the n-gram guard is on the normalized \<^verbatim>\<open>n\<close>; each gram, with its
  index, must be an integer and positive. \<open>ngram_bundle\<close> is the call the guard hands on.
\<close>

definition normalized_n :: "pyval \<Rightarrow> pyval" where
  "normalized_n n = (if isinstance n TInt then VList [n] else n)"

definition contract_grams :: "pyval list \<Rightarrow> predicate list" where
  "contract_grams grams =
     concat (map (\<lambda>(i, gram).
                    wrong_type gram [TInt] (VStr (''gram['' @ str_nat i @ '']''))
                    # not_positive gram (VStr (''gram_'' @ str_nat i)))
              (List.enumerate 0 grams))"

definition contract_ngram :: "pyval \<Rightarrow> pyval \<Rightarrow> pyval \<Rightarrow> pyval \<Rightarrow> predicate list" where
  "contract_ngram n left_pad right_pad separator =
     [(\<not> (isinstance (normalized_n n) TList \<and> normalized_n n \<noteq> VList []),
       ValueViolation (Text ''n needs to be a non-empty list of positive integers.''))]
     @ contract_grams (items (normalized_n n))
     @ [(\<not> is_pad left_pad,
         ValueViolation (Text
           ''left_pad needs to be a tuple of (str, int) str is pad token and int is pad_width.'')),
        (\<not> is_pad right_pad,
         ValueViolation (Text
           ''right_pad needs to be a tuple of (str, int) str is pad token and int is pad_width.'')),
        (\<not> (int_of (item left_pad 1) \<ge> 0 \<and> int_of (item right_pad 1) \<ge> 0),
         ValueViolation (Text ''padding width need to be positive numbers.'')),
        wrong_type separator [TStr] (VStr ''separator'')]"

definition ngram_bundle :: "pyval \<Rightarrow> pyval \<Rightarrow> pyval \<Rightarrow> pyval \<Rightarrow> call \<Rightarrow> call" where
  "ngram_bundle n left_pad right_pad separator c =
     \<lparr>args = [],
      kwargs = AList.update ''separator'' separator
                (AList.update ''right_pad'' right_pad
                  (AList.update ''left_pad'' left_pad
                    (AList.update ''n'' (normalized_n n) (kwargs c))))\<rparr>"

definition contract_to_number :: "pyval list \<Rightarrow> pyval \<Rightarrow> predicate list" where
  "contract_to_number number_type data_type =
     [wrong_type data_type [TType] (VStr ''data_type''),
      (data_type \<notin> set number_type,
       TypeViolation (Text ''data_type is not numeric data type.''))]"

definition contract_python_tokenizer :: "pyval \<Rightarrow> predicate list" where
  "contract_python_tokenizer tokenizer =
     [(\<not> callable tokenizer,
       TypeViolation (Text ''tokenizer is not a callable python function''))]"

section \<open>Properties\<close>

subsection \<open>Sequencing and the library checkers\<close>

lemma then_do_simps [simp]:
  "then_do (Inl e) b = Inl e"
  "then_do (Inr x) b = b"
  by (simp_all add: then_do_def)

lemma type_check_VStr [simp]: "type_check (VStr w) [TStr] n = Inr ()"
  by (simp add: type_check_def)

lemma raise_if_simps [simp]:
  "raise_if True e = Inl e"
  "raise_if False e = Inr ()"
  by (simp_all add: raise_if_def)

lemma check_value_VInt:
  "check_value (VInt n) (lo, hi) name =
     (if lo \<le> n \<and> n \<le> hi then Inr () else Inl (ValueViolation (Unmet name (Within lo hi))))"
  by (auto simp: check_value_def less_int_def greater_int_def)

lemma check_uint32_VInt:
  "check_uint32 (VInt n) =
     (if 0 \<le> n \<and> n \<le> UINT32_MAX then Inr ()
      else Inl (ValueViolation (Unmet (VStr []) (Within 0 UINT32_MAX))))"
  by (simp add: check_uint32_def type_check_def check_value_VInt)

lemma then_do_Inl_iff: "then_do a b = Inl e \<longleftrightarrow> a = Inl e \<or> ((\<exists>x. a = Inr x) \<and> b = Inl e)"
  by (cases a) simp_all

lemma then_do_Inr_iff: "then_do a b = Inr y \<longleftrightarrow> (\<exists>x. a = Inr x) \<and> b = Inr y"
  by (cases a) simp_all


lemma isinstance_simps [simp]:
  "isinstance (VInt n) TInt" "isinstance (VBool b) TInt" "isinstance (VBool b) TBool"
  "isinstance (VStr s) TStr" "isinstance (VList xs) TList" "isinstance (VTuple xs) TTuple"
  "isinstance (VVocab h) TVocab"
  "\<not> isinstance VNone TInt" "\<not> isinstance (VList xs) TInt" "\<not> isinstance (VStr s) TList"
  by (simp_all add: isinstance_def)

lemma isinstance_type_of: "t \<noteq> TInt \<Longrightarrow> isinstance v t \<longleftrightarrow> type_of v = t"
  by (auto simp: isinstance_def)

lemma item_simps [simp]:
  "item (VTuple (x # xs)) 0 = x"
  "item (VTuple (x # y # xs)) (Suc 0) = y"
  by (simp_all add: item_def)

lemma int_of_simps [simp]:
  "int_of (VInt n) = n"
  by (simp add: int_of_def)

lemma raise_if_Inr_iff: "raise_if cond e = Inr x \<longleftrightarrow> \<not> cond"
  by (cases cond) simp_all

lemma str_nat_digit: "n < 10 \<Longrightarrow> str_nat n = [digit n]"
  by (simp add: str_nat.simps)

lemma str_nat_0 [simp]: "str_nat 0 = ''0''"
  by (simp add: str_nat_digit digit_def)

lemma str_nat_1 [simp]: "str_nat (Suc 0) = ''1''"
  by (simp add: str_nat_digit digit_def)

lemma check_positive_VInt:
  "check_positive (VInt n) name =
     (if 0 < n then Inr () else Inl (ValueViolation (Unmet name Positive)))"
  by (simp add: check_positive_def greater_int_def)

lemma type_check_VInt [simp]: "type_check (VInt n) [TInt] name = Inr ()"
  by (simp add: type_check_def)

lemma grams_loop_positive:
  "\<forall>g \<in> set gs. 0 < g \<Longrightarrow> grams_loop i (map VInt gs) = Inr ()"
  by (induction gs arbitrary: i) (simp_all add: check_positive_VInt)

lemma is_pad_pair [simp]: "is_pad (VTuple [VStr t, VInt w])"
  by (simp add: is_pad_def)

subsection \<open>Vocabulary from a list\<close>

lemma unique_words_loop_distinct:
  "distinct ws \<Longrightarrow> set ws \<inter> S = {} \<Longrightarrow>
   unique_words_loop (map VStr ws) S name = Inr (S \<union> set ws)"
  by (induction ws arbitrary: S) auto

lemma unique_words_loop_duplicate:
  "\<not> (distinct ws \<and> set ws \<inter> S = {}) \<Longrightarrow>
   \<exists>w \<in> set ws. (w \<in> S \<or> 2 \<le> count_list ws w) \<and>
     unique_words_loop (map VStr ws) S name =
       Inl (ValueViolation (Text (name @ '' contains duplicate word: '' @ w @ ''.'')))"
proof (induction ws arbitrary: S)
  case Nil
  then show ?case by simp
next
  case (Cons x xs)
  show ?case
  proof (cases "x \<in> S")
    case True
    then show ?thesis by auto
  next
    case False
    with Cons.prems have "\<not> (distinct xs \<and> set xs \<inter> insert x S = {})" by auto
    from Cons.IH [OF this] obtain w where w: "w \<in> set xs" "w \<in> insert x S \<or> 2 \<le> count_list xs w"
      "unique_words_loop (map VStr xs) (insert x S) name =
       Inl (ValueViolation (Text (name @ '' contains duplicate word: '' @ w @ ''.'')))" by blast
    have "w \<in> S \<or> 2 \<le> count_list (x # xs) w"
      using w(1,2) by (auto simp: count_list_0_iff Suc_le_eq)
    with w False show ?thesis by auto
  qed
qed

lemma check_unique_distinct:
  "distinct ws \<Longrightarrow> check_unique_list_of_words (VList (map VStr ws)) name = Inr (set ws)"
  by (simp add: check_unique_list_of_words_def type_check_def unique_words_loop_distinct)

lemma check_unique_duplicate:
  "\<not> distinct ws \<Longrightarrow>
   \<exists>w. 2 \<le> count_list ws w \<and>
     check_unique_list_of_words (VList (map VStr ws)) name =
       Inl (ValueViolation (Text (name @ '' contains duplicate word: '' @ w @ ''.'')))"
  using unique_words_loop_duplicate [of ws "{}" name]
  by (auto simp: check_unique_list_of_words_def type_check_def)

text \<open>
  Claim C1. \<^verbatim>\<open>check_from_list\<close>: a word list with a duplicate entry raises a
  \<open>ValueViolation\<close> whose text cites a word that occurs at least twice, whatever the
  special tokens and the flag are; duplicate-free word and special-token lists that share
  a word raise a \<open>ValueViolation\<close> citing the intersection; duplicate-free, disjoint lists
  (or no special tokens) with a boolean \<^verbatim>\<open>special_first\<close> pass.
\<close>

theorem C1_check_from_list:
  "(\<not> distinct ws \<longrightarrow>
      (\<exists>w. 2 \<le> count_list ws w \<and>
           (\<forall>special_tokens special_first.
              check_from_list [VList (map VStr ws), special_tokens, special_first] c =
                Inl (ValueViolation (Text (''word_list contains duplicate word: '' @ w @ ''.''))))))
   \<and> (distinct ws \<and> distinct ts \<and> set ws \<inter> set ts \<noteq> {} \<longrightarrow>
        (\<forall>special_first.
           check_from_list [VList (map VStr ws), VList (map VStr ts), special_first] c =
             Inl (ValueViolation (TextSet ''special_tokens and word_list contain duplicate word :''
                    (set ws \<inter> set ts) ''.''))))
   \<and> (distinct ws \<and> distinct ts \<and> set ws \<inter> set ts = {} \<longrightarrow>
        check_from_list [VList (map VStr ws), VList (map VStr ts), VBool b] c = Inr c)
   \<and> (distinct ws \<longrightarrow> check_from_list [VList (map VStr ws), VNone, VBool b] c = Inr c)"
proof (intro conjI impI)
  assume "\<not> distinct ws"
  from check_unique_duplicate [OF this, of "''word_list''"] obtain w where
    w: "2 \<le> count_list ws w"
       "check_unique_list_of_words (VList (map VStr ws)) ''word_list'' =
          Inl (ValueViolation (Text (''word_list contains duplicate word: '' @ w @ ''.'')))"
    by auto
  show "\<exists>w. 2 \<le> count_list ws w \<and>
           (\<forall>special_tokens special_first.
              check_from_list [VList (map VStr ws), special_tokens, special_first] c =
                Inl (ValueViolation (Text (''word_list contains duplicate word: '' @ w @ ''.''))))"
    using w by (intro exI [of _ w]) (simp add: check_from_list_def)
next
  assume "distinct ws \<and> distinct ts \<and> set ws \<inter> set ts \<noteq> {}"
  then show "\<forall>special_first.
           check_from_list [VList (map VStr ws), VList (map VStr ts), special_first] c =
             Inl (ValueViolation (TextSet ''special_tokens and word_list contain duplicate word :''
                    (set ws \<inter> set ts) ''.''))"
    by (simp add: check_from_list_def check_unique_distinct)
next
  assume "distinct ws \<and> distinct ts \<and> set ws \<inter> set ts = {}"
  then show "check_from_list [VList (map VStr ws), VList (map VStr ts), VBool b] c = Inr c"
    by (simp add: check_from_list_def check_unique_distinct type_check_def)
next
  assume "distinct ws"
  then show "check_from_list [VList (map VStr ws), VNone, VBool b] c = Inr c"
    by (simp add: check_from_list_def check_unique_distinct type_check_def)
qed

text \<open>
  The examples of the claim: \<^verbatim>\<open>["a","b","a"]\<close> cites \<^verbatim>\<open>a\<close>, and \<^verbatim>\<open>["a","b"]\<close> with
  special tokens \<^verbatim>\<open>["b","c"]\<close> cites \<^verbatim>\<open>{"b"}\<close>.
\<close>

theorem C1_check_from_list_witness:
  "\<not> distinct [''a'', ''b'', ''a'']
   \<and> check_from_list [VList [VStr ''a'', VStr ''b'', VStr ''a''], VInt 7, VNone]
         \<lparr>args = [], kwargs = []\<rparr> =
       Inl (ValueViolation (Text ''word_list contains duplicate word: a.''))
   \<and> distinct [''a'', ''b''] \<and> distinct [''b'', ''c'']
   \<and> check_from_list [VList [VStr ''a'', VStr ''b''], VList [VStr ''b'', VStr ''c''], VBool True]
         \<lparr>args = [], kwargs = []\<rparr> =
       Inl (ValueViolation (TextSet ''special_tokens and word_list contain duplicate word :''
              {''b''} ''.''))
   \<and> check_from_list [VList [VStr ''a'', VStr ''b''], VList [VStr ''c''], VBool True]
         \<lparr>args = [], kwargs = []\<rparr> =
       Inr \<lparr>args = [], kwargs = []\<rparr>
   \<and> check_from_list [VList [VStr ''a'', VStr ''b''], VNone, VBool False]
         \<lparr>args = [], kwargs = []\<rparr> =
       Inr \<lparr>args = [], kwargs = []\<rparr>"
proof -
  let ?c = "\<lparr>args = [], kwargs = []\<rparr>"
  have d: "\<not> distinct [''a'', ''b'', ''a'']" by simp
  from C1_check_from_list [of "[''a'', ''b'', ''a'']" ?c "[]" True] d
  obtain w where w: "2 \<le> count_list [''a'', ''b'', ''a''] w"
    and r: "check_from_list [VList (map VStr [''a'', ''b'', ''a'']), VInt 7, VNone] ?c =
            Inl (ValueViolation (Text (''word_list contains duplicate word: '' @ w @ ''.'')))"
    by blast
  from w have "w = ''a''" by (simp split: if_splits)
  with r have 1: "check_from_list [VList [VStr ''a'', VStr ''b'', VStr ''a''], VInt 7, VNone] ?c =
       Inl (ValueViolation (Text ''word_list contains duplicate word: a.''))" by simp
  have 2: "check_from_list [VList [VStr ''a'', VStr ''b''], VList [VStr ''b'', VStr ''c''], VBool True] ?c =
       Inl (ValueViolation (TextSet ''special_tokens and word_list contain duplicate word :''
              {''b''} ''.''))"
    using C1_check_from_list [of "[''a'', ''b'']" ?c "[''b'', ''c'']" True] by simp
  have 3: "check_from_list [VList [VStr ''a'', VStr ''b''], VList [VStr ''c''], VBool True] ?c = Inr ?c"
    using C1_check_from_list [of "[''a'', ''b'']" ?c "[''c'']" True] by simp
  have 4: "check_from_list [VList [VStr ''a'', VStr ''b''], VNone, VBool False] ?c = Inr ?c"
    using C1_check_from_list [of "[''a'', ''b'']" ?c "[''c'']" False] by simp
  from d 1 2 3 4 show ?thesis by simp
qed

subsection \<open>Vocabulary from a file\<close>

text \<open>
  With an integer \<^verbatim>\<open>vocab_size\<close> and the other arguments valid, \<^verbatim>\<open>check_from_file\<close>
  passes exactly when \<open>-1 \<le> vocab_size \<le> INT32_MAX\<close>, and raises a \<open>ValueViolation\<close>
  naming \<^verbatim>\<open>vocab_size\<close> otherwise; whatever the other arguments are, an integer outside
  the range is never accepted. So -2 raises, -1 passes, \<open>INT32_MAX\<close> passes and
  \<open>INT32_MAX + 1\<close> raises.
\<close>

lemma check_from_file_integer_vocab_size:
  "check_from_file [VStr file_path, VStr delimiter, VInt n, VNone, VBool b] c =
     (if - 1 \<le> n \<and> n \<le> INT32_MAX then Inr c
      else Inl (ValueViolation (Unmet (VStr ''vocab_size'') (Within (- 1) INT32_MAX))))
   \<and> (\<forall>fp d st sf. (\<exists>c'. check_from_file [fp, d, VInt n, st, sf] c = Inr c') \<longrightarrow>
         - 1 \<le> n \<and> n \<le> INT32_MAX)
   \<and> check_from_file [VStr file_path, VStr delimiter, VInt (- 2), VNone, VBool b] c =
       Inl (ValueViolation (Unmet (VStr ''vocab_size'') (Within (- 1) INT32_MAX)))
   \<and> check_from_file [VStr file_path, VStr delimiter, VInt (- 1), VNone, VBool b] c = Inr c
   \<and> check_from_file [VStr file_path, VStr delimiter, VInt INT32_MAX, VNone, VBool b] c = Inr c
   \<and> check_from_file [VStr file_path, VStr delimiter, VInt (INT32_MAX + 1), VNone, VBool b] c =
       Inl (ValueViolation (Unmet (VStr ''vocab_size'') (Within (- 1) INT32_MAX)))"
proof -
  have gen: "check_from_file [VStr file_path, VStr delimiter, VInt m, VNone, VBool b] c =
     (if - 1 \<le> m \<and> m \<le> INT32_MAX then Inr c
      else Inl (ValueViolation (Unmet (VStr ''vocab_size'') (Within (- 1) INT32_MAX))))" for m
    by (simp add: check_from_file_def type_check_def check_value_VInt)
  have only: "- 1 \<le> n \<and> n \<le> INT32_MAX"
    if "check_from_file [fp, d, VInt n, st, sf] c = Inr c'" for fp d st sf c'
    using that
    by (auto simp: check_from_file_def then_do_Inr_iff check_value_VInt split: if_splits)
  have "(0::int) \<le> INT32_MAX" by (simp add: INT32_MAX_def)
  with gen only show ?thesis by auto
qed

text \<open>
  Claim C2 says that the accepted values of \<^verbatim>\<open>vocab_size\<close> are exactly the integers of
  \<open>[-1, INT32_MAX]\<close>. The guard tests the range and not the type
  (\<^verbatim>\<open>if vocab_size is not None: check_value(vocab_size, (-1, INT32_MAX), "vocab_size")\<close>):
  it accepts the float 3.5, which is \<open>7 \<cdot> 2\<^sup>-\<^sup>1\<close>, and \<^verbatim>\<open>True\<close>. The sibling
  \<^verbatim>\<open>check_from_dict\<close> tests the type of a word id before its range and rejects 3.5.
\<close>

theorem C2_check_from_file_non_integer:
  "check_from_file [VStr ''vocab.txt'', VStr '','', VFloat 7 (- 1), VNone, VBool True]
     \<lparr>args = [VStr ''vocab.txt'', VStr '','', VFloat 7 (- 1)], kwargs = []\<rparr> =
     Inr \<lparr>args = [VStr ''vocab.txt'', VStr '','', VFloat 7 (- 1)], kwargs = []\<rparr>
   \<and> type_of (VFloat 7 (- 1)) \<noteq> TInt
   \<and> check_from_file [VStr ''vocab.txt'', VStr '','', VBool True, VNone, VBool True]
       \<lparr>args = [VStr ''vocab.txt'', VStr '','', VBool True], kwargs = []\<rparr> =
     Inr \<lparr>args = [VStr ''vocab.txt'', VStr '','', VBool True], kwargs = []\<rparr>
   \<and> type_of (VBool True) \<noteq> TInt
   \<and> check_from_dict [VDict [(VStr ''home'', VFloat 7 (- 1))]]
       \<lparr>args = [VDict [(VStr ''home'', VFloat 7 (- 1))]], kwargs = []\<rparr> =
     Inl (TypeViolation (Unmet (VStr ''word_id'') (OfType [TInt])))"
  by (simp add: check_from_file_def check_from_dict_def type_check_def check_value_def
        less_int_def greater_int_def INT32_MAX_def)

subsection \<open>Vocabulary from a corpus: the frequency range\<close>

text \<open>
  Claim C3. The frequency-range block of \<^verbatim>\<open>check_from_dataset\<close>: \<open>(5, 2)\<close> and
  \<open>(-1, 5)\<close> raise a \<open>ValueViolation\<close>, \<open>(2, 5)\<close> and \<open>(None, 5)\<close> pass; a pair of
  integers passes exactly when \<open>0 \<le> low \<le> high\<close>; a value that is not a tuple, a tuple
  that has not two elements, and a pair with an element that is neither \<^verbatim>\<open>None\<close> nor an
  integer fail. A failure of the block is a failure of the guard.
\<close>

theorem C3_check_from_dataset:
  "from_dataset_freq_range (VTuple [VInt 5, VInt 2]) =
     Inl (ValueViolation (Text ''frequency range [a,b] should be 0 <= a <= b (a,b are inclusive).''))
   \<and> from_dataset_freq_range (VTuple [VInt (- 1), VInt 5]) =
     Inl (ValueViolation (Text ''frequency range [a,b] should be 0 <= a <= b (a,b are inclusive).''))
   \<and> from_dataset_freq_range (VTuple [VInt 2, VInt 5]) = Inr ()
   \<and> from_dataset_freq_range (VTuple [VNone, VInt 5]) = Inr ()
   \<and> from_dataset_freq_range (VTuple [VInt lo, VInt hi]) =
       (if lo > hi \<or> lo < 0
        then Inl (ValueViolation (Text ''frequency range [a,b] should be 0 <= a <= b (a,b are inclusive).''))
        else Inr ())
   \<and> (freq_range \<noteq> VNone \<and> type_of freq_range \<noteq> TTuple \<longrightarrow>
        from_dataset_freq_range freq_range =
          Inl (TypeViolation (Unmet (VStr ''freq_range'') (OfType [TTuple]))))
   \<and> (length xs \<noteq> 2 \<longrightarrow>
        from_dataset_freq_range (VTuple xs) =
          Inl (ValueViolation (Text ''freq_range needs to be a tuple of 2 integers or an int and a None.'')))
   \<and> (length xs = 2 \<and> (\<exists>num \<in> set xs. num \<noteq> VNone \<and> \<not> isinstance num TInt) \<longrightarrow>
        from_dataset_freq_range (VTuple xs) =
          Inl (ValueViolation (Text
            ''freq_range needs to be either None or a tuple of 2 integers or an int and a None.'')))
   \<and> (from_dataset_freq_range freq_range = Inl e \<longrightarrow>
        (\<exists>e'. check_from_dataset [dataset, columns, freq_range, top_k, special_tokens, special_first] c
                = Inl e')
        \<and> check_from_dataset [dataset, VNone, freq_range, top_k, special_tokens, special_first] c
            = Inl e)
   \<and> check_from_dataset [dataset, VNone, VTuple [VInt 2, VInt 5], VNone, VNone, VBool b] c = Inr c
   \<and> check_from_dataset [dataset, VNone, VTuple [VNone, VInt 5], VNone, VNone, VBool b] c = Inr c"
proof -
  have 1: "from_dataset_freq_range (VTuple [VInt l, VInt h]) =
       (if l > h \<or> l < 0
        then Inl (ValueViolation (Text ''frequency range [a,b] should be 0 <= a <= b (a,b are inclusive).''))
        else Inr ())" for l h
    by (simp add: from_dataset_freq_range_def type_check_def)
  have 2: "from_dataset_freq_range (VTuple [VNone, VInt 5]) = Inr ()"
    by (simp add: from_dataset_freq_range_def type_check_def)
  have 3: "from_dataset_freq_range freq_range =
          Inl (TypeViolation (Unmet (VStr ''freq_range'') (OfType [TTuple])))"
    if "freq_range \<noteq> VNone \<and> type_of freq_range \<noteq> TTuple"
    using that by (simp add: from_dataset_freq_range_def type_check_def)
  have 4: "from_dataset_freq_range (VTuple xs) =
          Inl (ValueViolation (Text ''freq_range needs to be a tuple of 2 integers or an int and a None.''))"
    if "length xs \<noteq> 2"
    using that by (simp add: from_dataset_freq_range_def type_check_def)
  have 5: "from_dataset_freq_range (VTuple xs) =
          Inl (ValueViolation (Text
            ''freq_range needs to be either None or a tuple of 2 integers or an int and a None.''))"
    if "length xs = 2 \<and> (\<exists>num \<in> set xs. num \<noteq> VNone \<and> \<not> isinstance num TInt)"
    using that by (simp add: from_dataset_freq_range_def type_check_def list_ex_iff)
  have 6: "\<exists>e'. check_from_dataset [dataset, columns, freq_range, top_k, special_tokens, special_first] c
                = Inl e'"
    if "from_dataset_freq_range freq_range = Inl e"
    using that by (cases "from_dataset_columns columns") (simp_all add: check_from_dataset_def)
  have 7: "check_from_dataset [dataset, VNone, freq_range, top_k, special_tokens, special_first] c
            = Inl e"
    if "from_dataset_freq_range freq_range = Inl e"
    using that by (simp add: check_from_dataset_def from_dataset_columns_def)
  have 8: "check_from_dataset [dataset, VNone, VTuple [VInt 2, VInt 5], VNone, VNone, VBool b] c = Inr c"
    by (simp add: check_from_dataset_def from_dataset_columns_def 1 type_check_def)
  have 9: "check_from_dataset [dataset, VNone, VTuple [VNone, VInt 5], VNone, VNone, VBool b] c = Inr c"
    by (simp add: check_from_dataset_def from_dataset_columns_def 2 type_check_def)
  show ?thesis
    using 1 [of 5 2] 1 [of "- 1" 5] 1 [of 2 5] 1 [of lo hi] 2 3 4 5 6 7 8 9
    by (intro conjI impI) simp_all
qed

text \<open>
  The failing shapes of the claim: a text instead of a tuple, a tuple of three, and a
  pair whose first element is a text.
\<close>

theorem C3_check_from_dataset_witness:
  "from_dataset_freq_range (VStr ''2-5'') =
     Inl (TypeViolation (Unmet (VStr ''freq_range'') (OfType [TTuple])))
   \<and> from_dataset_freq_range (VTuple [VInt 1, VInt 2, VInt 3]) =
     Inl (ValueViolation (Text ''freq_range needs to be a tuple of 2 integers or an int and a None.''))
   \<and> from_dataset_freq_range (VTuple [VStr ''a'', VInt 5]) =
     Inl (ValueViolation (Text
       ''freq_range needs to be either None or a tuple of 2 integers or an int and a None.''))
   \<and> check_from_dataset [VNone, VNone, VStr ''2-5'', VNone, VNone, VBool True]
       \<lparr>args = [], kwargs = []\<rparr> =
     Inl (TypeViolation (Unmet (VStr ''freq_range'') (OfType [TTuple])))"
proof -
  let ?c = "\<lparr>args = [], kwargs = []\<rparr>"
  let ?e = "TypeViolation (Unmet (VStr ''freq_range'') (OfType [TTuple]))"
  note t1 = C3_check_from_dataset [of 5 2 "VStr ''2-5''" "[VInt 1, VInt 2, VInt 3]" ?e
              VNone VNone VNone VNone "VBool True" ?c True]
  note t2 = C3_check_from_dataset [of 5 2 "VStr ''2-5''" "[VStr ''a'', VInt 5]" ?e
              VNone VNone VNone VNone "VBool True" ?c True]
  have 1: "from_dataset_freq_range (VStr ''2-5'') = Inl ?e" using t1 by simp
  have 2: "from_dataset_freq_range (VTuple [VInt 1, VInt 2, VInt 3]) =
     Inl (ValueViolation (Text ''freq_range needs to be a tuple of 2 integers or an int and a None.''))"
    using t1 by simp
  have 3: "from_dataset_freq_range (VTuple [VStr ''a'', VInt 5]) =
     Inl (ValueViolation (Text
       ''freq_range needs to be either None or a tuple of 2 integers or an int and a None.''))"
    using t2 by (simp add: isinstance_def)
  have 4: "check_from_dataset [VNone, VNone, VStr ''2-5'', VNone, VNone, VBool True] ?c = Inl ?e"
    using t1 1 by simp
  from 1 2 3 4 show ?thesis by simp
qed

subsection \<open>The wordpiece tokenizer\<close>

text \<open>
  Claim C8. \<^verbatim>\<open>check_wordpiece_tokenizer\<close> passes exactly when \<^verbatim>\<open>vocab\<close> is a
  \<^verbatim>\<open>cde.Vocab\<close>, \<^verbatim>\<open>suffix_indicator\<close> and \<^verbatim>\<open>unknown_token\<close> are text,
  \<^verbatim>\<open>with_offsets\<close> is boolean and \<^verbatim>\<open>max_bytes_per_token\<close> passes \<^verbatim>\<open>check_uint32\<close>, which
  an integer does exactly when it lies in \<open>[0, UINT32_MAX]\<close>. With
  \<^verbatim>\<open>max_bytes_per_token = -1\<close> the guard raises a \<open>TypeViolation\<close> or a \<open>ValueViolation\<close>
  whatever the other arguments are (the \<open>ValueViolation\<close> of the range when they are
  valid); 0 passes; \<^verbatim>\<open>vocab = None\<close> raises.
\<close>

theorem C8_check_wordpiece_tokenizer:
  "(check_wordpiece_tokenizer [vocab, suffix_indicator, max_bytes_per_token, unknown_token, with_offsets] c
      = Inr c' \<longleftrightarrow>
    c' = c \<and> type_of vocab = TVocab \<and> type_of suffix_indicator = TStr
    \<and> type_of unknown_token = TStr \<and> type_of with_offsets = TBool
    \<and> check_uint32 max_bytes_per_token = Inr ())
   \<and> (check_uint32 (VInt m) = Inr () \<longleftrightarrow> 0 \<le> m \<and> m \<le> UINT32_MAX)
   \<and> (\<exists>msg. check_wordpiece_tokenizer [vocab, suffix_indicator, VInt (- 1), unknown_token, with_offsets] c
               = Inl (TypeViolation msg)
            \<or> check_wordpiece_tokenizer [vocab, suffix_indicator, VInt (- 1), unknown_token, with_offsets] c
               = Inl (ValueViolation msg))
   \<and> check_wordpiece_tokenizer [VVocab h, VStr suffix, VInt (- 1), VStr unknown, VBool b] c =
       Inl (ValueViolation (Unmet (VStr []) (Within 0 UINT32_MAX)))
   \<and> check_wordpiece_tokenizer [VVocab h, VStr suffix, VInt 0, VStr unknown, VBool b] c = Inr c
   \<and> check_wordpiece_tokenizer [VNone, suffix_indicator, max_bytes_per_token, unknown_token, with_offsets] c
       = Inl (ValueViolation (Text ''vocab is not provided.''))"
proof -
  have 1: "check_wordpiece_tokenizer [vocab, suffix_indicator, max_bytes_per_token, unknown_token, with_offsets] c
      = Inr c' \<longleftrightarrow>
    c' = c \<and> type_of vocab = TVocab \<and> type_of suffix_indicator = TStr
    \<and> type_of unknown_token = TStr \<and> type_of with_offsets = TBool
    \<and> check_uint32 max_bytes_per_token = Inr ()"
    by (auto simp: check_wordpiece_tokenizer_def raise_if_Inr_iff then_do_Inr_iff
          isinstance_type_of)
  have 2: "check_uint32 (VInt m) = Inr () \<longleftrightarrow> 0 \<le> m \<and> m \<le> UINT32_MAX"
    by (simp add: check_uint32_VInt)
  have 3: "\<exists>msg. check_wordpiece_tokenizer [vocab, suffix_indicator, VInt (- 1), unknown_token, with_offsets] c
               = Inl (TypeViolation msg)
            \<or> check_wordpiece_tokenizer [vocab, suffix_indicator, VInt (- 1), unknown_token, with_offsets] c
               = Inl (ValueViolation msg)"
    by (simp add: check_wordpiece_tokenizer_def raise_if_def check_uint32_VInt)
  have 4: "check_wordpiece_tokenizer [VVocab h, VStr suffix, VInt (- 1), VStr unknown, VBool b] c =
       Inl (ValueViolation (Unmet (VStr []) (Within 0 UINT32_MAX)))"
    by (simp add: check_wordpiece_tokenizer_def check_uint32_VInt)
  have 5: "check_wordpiece_tokenizer [VVocab h, VStr suffix, VInt 0, VStr unknown, VBool b] c = Inr c"
    by (simp add: check_wordpiece_tokenizer_def check_uint32_VInt UINT32_MAX_def)
  have 6: "check_wordpiece_tokenizer [VNone, suffix_indicator, max_bytes_per_token, unknown_token, with_offsets] c
       = Inl (ValueViolation (Text ''vocab is not provided.''))"
    by (simp add: check_wordpiece_tokenizer_def)
  from 1 2 3 4 5 6 show ?thesis by blast
qed

text \<open>The theorem at a valid call with \<^verbatim>\<open>max_bytes_per_token = 100\<close>, and at -1 and 0.\<close>

theorem C8_check_wordpiece_tokenizer_witness:
  "check_wordpiece_tokenizer [VVocab 0, VStr ''##'', VInt 100, VStr ''[UNK]'', VBool False]
     \<lparr>args = [], kwargs = []\<rparr> = Inr \<lparr>args = [], kwargs = []\<rparr>
   \<and> check_uint32 (VInt 100) = Inr ()
   \<and> check_wordpiece_tokenizer [VVocab 0, VStr ''##'', VInt (- 1), VStr ''[UNK]'', VBool False]
       \<lparr>args = [], kwargs = []\<rparr> =
       Inl (ValueViolation (Unmet (VStr []) (Within 0 4294967295)))
   \<and> check_wordpiece_tokenizer [VVocab 0, VStr ''##'', VInt 0, VStr ''[UNK]'', VBool False]
       \<lparr>args = [], kwargs = []\<rparr> = Inr \<lparr>args = [], kwargs = []\<rparr>"
proof -
  let ?c = "\<lparr>args = [], kwargs = []\<rparr>"
  note t = C8_check_wordpiece_tokenizer [of "VVocab 0" "VStr ''##''" "VInt 100" "VStr ''[UNK]''"
             "VBool False" ?c ?c 100 0 "''##''" "''[UNK]''" False]
  from t have 2: "check_uint32 (VInt 100) = Inr ()" by (simp add: UINT32_MAX_def)
  with t have 1: "check_wordpiece_tokenizer [VVocab 0, VStr ''##'', VInt 100, VStr ''[UNK]'', VBool False] ?c
                  = Inr ?c" by simp
  from t have 3: "check_wordpiece_tokenizer [VVocab 0, VStr ''##'', VInt (- 1), VStr ''[UNK]'', VBool False] ?c
       = Inl (ValueViolation (Unmet (VStr []) (Within 0 4294967295)))"
    by (simp add: UINT32_MAX_def)
  from t have 4: "check_wordpiece_tokenizer [VVocab 0, VStr ''##'', VInt 0, VStr ''[UNK]'', VBool False] ?c
                  = Inr ?c" by simp
  from 1 2 3 4 show ?thesis by simp
qed

subsection \<open>Adding a word to the segmentation dictionary\<close>

text \<open>
  Claim C10. \<^verbatim>\<open>check_jieba_add_word\<close> checks of \<^verbatim>\<open>word\<close> only that it is not
  \<^verbatim>\<open>None\<close>: a word of any other value passes and the call is forwarded as it is; of the
  two parameters only \<^verbatim>\<open>freq\<close>, when it is not \<^verbatim>\<open>None\<close>, is checked, by
  \<^verbatim>\<open>check_uint32\<close> (an integer passes exactly when it lies in \<open>[0, UINT32_MAX]\<close>).
\<close>

theorem C10_check_jieba_add_word:
  "(word \<noteq> VNone \<longrightarrow> check_jieba_add_word [word, VNone] c = Inr c)
   \<and> (word \<noteq> VNone \<and> freq \<noteq> VNone \<longrightarrow>
        check_jieba_add_word [word, freq] c = then_do (check_uint32 freq) (Inr c))
   \<and> (word \<noteq> VNone \<longrightarrow>
        check_jieba_add_word [word, VInt f] c =
          (if 0 \<le> f \<and> f \<le> UINT32_MAX then Inr c
           else Inl (ValueViolation (Unmet (VStr []) (Within 0 UINT32_MAX)))))
   \<and> check_jieba_add_word [VNone, freq] c = Inl (ValueViolation (Text ''word is not provided.''))
   \<and> (word \<noteq> VNone \<and> parse_user_args sig c = Inr [word, VNone] \<longrightarrow>
        new_method check_jieba_add_word sig method c s =
          (case method c s of (r, s') \<Rightarrow> (Inr r, s')))"
  by (simp add: check_jieba_add_word_def check_uint32_VInt new_method_def)

text \<open>The theorem at the integer 5 as the word.\<close>

theorem C10_check_jieba_add_word_witness:
  "VInt 5 \<noteq> VNone
   \<and> check_jieba_add_word [VInt 5, VNone] \<lparr>args = [VInt 5], kwargs = []\<rparr> =
       Inr \<lparr>args = [VInt 5], kwargs = []\<rparr>
   \<and> check_jieba_add_word [VInt 5, VInt 3] \<lparr>args = [VInt 5], kwargs = []\<rparr> =
       Inr \<lparr>args = [VInt 5], kwargs = []\<rparr>
   \<and> parse_user_args [(''word'', None), (''freq'', Some VNone)] \<lparr>args = [VInt 5], kwargs = []\<rparr> =
       Inr [VInt 5, VNone]
   \<and> new_method check_jieba_add_word [(''word'', None), (''freq'', Some VNone)] Pair
       \<lparr>args = [VInt 5], kwargs = []\<rparr> (0::nat) =
       (Inr \<lparr>args = [VInt 5], kwargs = []\<rparr>, 0)"
proof -
  let ?c = "\<lparr>args = [VInt 5], kwargs = []\<rparr>"
  let ?sig = "[(''word'', None), (''freq'', Some VNone)]"
  have p: "parse_user_args ?sig ?c = Inr [VInt 5, VNone]"
    by (simp add: parse_user_args_def)
  note t = C10_check_jieba_add_word [of "VInt 5" ?c "VInt 3" 3 ?sig Pair "0::nat"]
  from t p show ?thesis by (simp add: UINT32_MAX_def check_uint32_VInt)
qed

subsection \<open>N-grams\<close>

text \<open>
  Claim C4. \<^verbatim>\<open>check_ngram\<close>: a positive integer \<^verbatim>\<open>n\<close> (such as 3) with pads of
  non-negative width and a text separator passes, and the call handed to the wrapped
  method has no positional argument and the keywords \<^verbatim>\<open>n\<close>, set to the one-element
  list of that integer, \<^verbatim>\<open>left_pad\<close>, \<^verbatim>\<open>right_pad\<close> and \<^verbatim>\<open>separator\<close>;
  \<^verbatim>\<open>n = [2, 0]\<close> raises the \<open>ValueViolation\<close> of positivity on the second gram;
  \<^verbatim>\<open>n = []\<close> raises a \<open>ValueViolation\<close>; a left pad of width -1 makes the guard fail
  whatever the other arguments are, with the \<open>ValueViolation\<close> of the width when they are
  valid.
\<close>

theorem C4_check_ngram:
  "(0 < k \<and> 0 \<le> lw \<and> 0 \<le> rw \<longrightarrow>
      check_ngram [VInt k, VTuple [VStr lt, VInt lw], VTuple [VStr rt, VInt rw], VStr sep] c =
        Inr \<lparr>args = [],
             kwargs = AList.update ''separator'' (VStr sep)
                       (AList.update ''right_pad'' (VTuple [VStr rt, VInt rw])
                         (AList.update ''left_pad'' (VTuple [VStr lt, VInt lw])
                           (AList.update ''n'' (VList [VInt k]) (kwargs c))))\<rparr>)
   \<and> (0 < k \<and> 0 \<le> lw \<and> 0 \<le> rw
       \<and> parse_user_args sig c =
           Inr [VInt k, VTuple [VStr lt, VInt lw], VTuple [VStr rt, VInt rw], VStr sep] \<longrightarrow>
      new_method check_ngram sig wrapped c s =
        (case wrapped
                \<lparr>args = [],
                 kwargs = AList.update ''separator'' (VStr sep)
                           (AList.update ''right_pad'' (VTuple [VStr rt, VInt rw])
                             (AList.update ''left_pad'' (VTuple [VStr lt, VInt lw])
                               (AList.update ''n'' (VList [VInt k]) (kwargs c))))\<rparr> s
         of (r, s') \<Rightarrow> (Inr r, s')))
   \<and> check_ngram [VList [VInt 2, VInt 0], left_pad, right_pad, separator] c =
       Inl (ValueViolation (Unmet (VStr ''gram_1'') Positive))
   \<and> check_ngram [VList [], left_pad, right_pad, separator] c =
       Inl (ValueViolation (Text ''n needs to be a non-empty list of positive integers.''))
   \<and> (\<exists>e. check_ngram [n, VTuple [VStr lt, VInt (- 1)], right_pad, separator] c = Inl e)
   \<and> (0 < k \<and> 0 \<le> rw \<longrightarrow>
        check_ngram [VInt k, VTuple [VStr lt, VInt (- 1)], VTuple [VStr rt, VInt rw], separator] c =
          Inl (ValueViolation (Text ''padding width need to be positive numbers.'')))"
proof -
  let ?b = "\<lparr>args = [],
             kwargs = AList.update ''separator'' (VStr sep)
                       (AList.update ''right_pad'' (VTuple [VStr rt, VInt rw])
                         (AList.update ''left_pad'' (VTuple [VStr lt, VInt lw])
                           (AList.update ''n'' (VList [VInt k]) (kwargs c))))\<rparr>"
  have 1: "check_ngram [VInt k, VTuple [VStr lt, VInt lw], VTuple [VStr rt, VInt rw], VStr sep] c = Inr ?b"
    if "0 < k \<and> 0 \<le> lw \<and> 0 \<le> rw"
    using that by (simp add: check_ngram_def check_positive_VInt)
  have 2: "new_method check_ngram sig wrapped c s = (case wrapped ?b s of (r, s') \<Rightarrow> (Inr r, s'))"
    if "0 < k \<and> 0 \<le> lw \<and> 0 \<le> rw
       \<and> parse_user_args sig c =
           Inr [VInt k, VTuple [VStr lt, VInt lw], VTuple [VStr rt, VInt rw], VStr sep]"
    using that 1 by (simp add: new_method_def)
  have 3: "check_ngram [VList [VInt 2, VInt 0], left_pad, right_pad, separator] c =
       Inl (ValueViolation (Unmet (VStr ''gram_1'') Positive))"
    by (simp add: check_ngram_def check_positive_VInt)
  have 4: "check_ngram [VList [], left_pad, right_pad, separator] c =
       Inl (ValueViolation (Text ''n needs to be a non-empty list of positive integers.''))"
    by (simp add: check_ngram_def)
  have 5: "\<exists>e. check_ngram [n, VTuple [VStr lt, VInt (- 1)], right_pad, separator] c = Inl e"
    by (simp add: check_ngram_def Let_def then_do_def raise_if_def split: sum.splits)
  have 6: "check_ngram [VInt k, VTuple [VStr lt, VInt (- 1)], VTuple [VStr rt, VInt rw], separator] c =
          Inl (ValueViolation (Text ''padding width need to be positive numbers.''))"
    if "0 < k \<and> 0 \<le> rw"
    using that by (simp add: check_ngram_def check_positive_VInt)
  from 1 2 3 4 5 6 show ?thesis by blast
qed

text \<open>
  The theorem at \<^verbatim>\<open>n = 3\<close>, \<^verbatim>\<open>left_pad = ("<s>", 2)\<close>: the bundle handed over holds
  \<^verbatim>\<open>n = [3]\<close>.
\<close>

theorem C4_check_ngram_witness:
  "check_ngram [VInt 3, VTuple [VStr ''<s>'', VInt 2], VTuple [VStr ''</s>'', VInt 0], VStr '' '']
     \<lparr>args = [VInt 3, VTuple [VStr ''<s>'', VInt 2]], kwargs = []\<rparr> =
     Inr \<lparr>args = [],
          kwargs = [(''n'', VList [VInt 3]), (''left_pad'', VTuple [VStr ''<s>'', VInt 2]),
                    (''right_pad'', VTuple [VStr ''</s>'', VInt 0]), (''separator'', VStr '' '')]\<rparr>
   \<and> new_method check_ngram
       [(''n'', None), (''left_pad'', Some (VTuple [VStr [], VInt 0])),
        (''right_pad'', Some (VTuple [VStr ''</s>'', VInt 0])), (''separator'', Some (VStr '' ''))]
       Pair \<lparr>args = [VInt 3, VTuple [VStr ''<s>'', VInt 2]], kwargs = []\<rparr> (0::nat) =
     (Inr \<lparr>args = [],
           kwargs = [(''n'', VList [VInt 3]), (''left_pad'', VTuple [VStr ''<s>'', VInt 2]),
                     (''right_pad'', VTuple [VStr ''</s>'', VInt 0]), (''separator'', VStr '' '')]\<rparr>, 0)
   \<and> check_ngram [VInt 3, VTuple [VStr ''<s>'', VInt (- 1)], VTuple [VStr ''</s>'', VInt 0], VStr '' '']
       \<lparr>args = [VInt 3, VTuple [VStr ''<s>'', VInt 2]], kwargs = []\<rparr> =
     Inl (ValueViolation (Text ''padding width need to be positive numbers.''))"
proof -
  let ?c = "\<lparr>args = [VInt 3, VTuple [VStr ''<s>'', VInt 2]], kwargs = []\<rparr>"
  let ?sig = "[(''n'', None), (''left_pad'', Some (VTuple [VStr [], VInt 0])),
        (''right_pad'', Some (VTuple [VStr ''</s>'', VInt 0])), (''separator'', Some (VStr '' ''))]"
  have p: "parse_user_args ?sig ?c =
             Inr [VInt 3, VTuple [VStr ''<s>'', VInt 2], VTuple [VStr ''</s>'', VInt 0], VStr '' '']"
    by (simp add: parse_user_args_def)
  note t = C4_check_ngram [where k = 3 and lw = 2 and rw = 0 and lt = "''<s>''"
             and rt = "''</s>''" and sep = "'' ''" and c = ?c and sig = ?sig and wrapped = Pair
             and s = "0::nat" and separator = "VStr '' ''"]
  have 1: "check_ngram [VInt 3, VTuple [VStr ''<s>'', VInt 2], VTuple [VStr ''</s>'', VInt 0], VStr '' ''] ?c =
     Inr \<lparr>args = [],
          kwargs = [(''n'', VList [VInt 3]), (''left_pad'', VTuple [VStr ''<s>'', VInt 2]),
                    (''right_pad'', VTuple [VStr ''</s>'', VInt 0]), (''separator'', VStr '' '')]\<rparr>"
    using t by simp
  have 2: "new_method check_ngram ?sig Pair ?c (0::nat) =
     (Inr \<lparr>args = [],
           kwargs = [(''n'', VList [VInt 3]), (''left_pad'', VTuple [VStr ''<s>'', VInt 2]),
                     (''right_pad'', VTuple [VStr ''</s>'', VInt 0]), (''separator'', VStr '' '')]\<rparr>, 0)"
    using t p by simp
  have 3: "check_ngram [VInt 3, VTuple [VStr ''<s>'', VInt (- 1)], VTuple [VStr ''</s>'', VInt 0], VStr '' ''] ?c =
     Inl (ValueViolation (Text ''padding width need to be positive numbers.''))"
    using t by simp
  from 1 2 3 show ?thesis by simp
qed

subsection \<open>Vocabulary from a corpus: the column names\<close>

lemma check_from_dataset_same_call:
  assumes "check_from_dataset ps c = Inr c'"
  shows "c' = c"
proof -
  from assms obtain dataset columns freq_range top_k special_tokens special_first where
    ps: "ps = [dataset, columns, freq_range, top_k, special_tokens, special_first]"
    by (simp add: check_from_dataset_def split: list.splits)
  have "then_do a (then_do b (then_do d (then_do e (then_do f (then_do g (Inr c)))))) = Inr c'
        \<Longrightarrow> c' = c"
    for a :: "error + pyval" and b d e f :: "error + unit" and g :: "error + string set"
    by (simp add: then_do_Inr_iff)
  with assms show ?thesis
    unfolding ps check_from_dataset_def by simp
qed

text \<open>
  Claim C5 says that the column names are normalized to a sequence of text, that every
  element is checked to be text whether supplied as a scalar or as a list, and that the
  normalized sequence is what reaches the wrapped operation. At the scalar \<^verbatim>\<open>"text"\<close>
  the local variable becomes \<^verbatim>\<open>["text"]\<close>, but the wrapped method is handed the call
  as it came, with the scalar; and the list \<^verbatim>\<open>[1]\<close>, whose element is not text,
  passes the guard.
\<close>

theorem C5_counterexample:
  "from_dataset_columns (VStr ''text'') = Inr (VList [VStr ''text''])
   \<and> new_method check_from_dataset
       [(''dataset'', None), (''columns'', Some VNone), (''freq_range'', Some VNone),
        (''top_k'', Some VNone), (''special_tokens'', Some VNone),
        (''special_first'', Some (VBool True))]
       Pair \<lparr>args = [VNone, VStr ''text''], kwargs = []\<rparr> () =
     (Inr \<lparr>args = [VNone, VStr ''text''], kwargs = []\<rparr>, ())
   \<and> \<lparr>args = [VNone, VStr ''text''], kwargs = []\<rparr>
       \<noteq> \<lparr>args = [VNone, VList [VStr ''text'']], kwargs = []\<rparr>
   \<and> check_from_dataset [VNone, VList [VInt 1], VNone, VNone, VNone, VBool True]
       \<lparr>args = [VNone, VList [VInt 1]], kwargs = []\<rparr> =
     Inr \<lparr>args = [VNone, VList [VInt 1]], kwargs = []\<rparr>"
  by (simp add: from_dataset_columns_def new_method_def parse_user_args_def
        check_from_dataset_def from_dataset_freq_range_def type_check_def isinstance_def)

text \<open>
  Claim C5, amended. A column name supplied as a single value (not \<^verbatim>\<open>None\<close>, not a
  list) is coerced to a one-element sequence for the check and must be text, else the
  guard raises a \<open>TypeViolation\<close> naming \<^verbatim>\<open>col_0\<close>; whenever the guard passes, the
  wrapped method is handed the call unchanged, the column names as the caller wrote them.
\<close>

theorem C5_check_from_dataset_columns:
  "(columns \<noteq> VNone \<and> \<not> isinstance columns TList \<longrightarrow>
      from_dataset_columns columns =
        (if type_of columns = TStr then Inr (VList [columns])
         else Inl (TypeViolation (Unmet (VStr ''col_0'') (OfType [TStr])))))
   \<and> (columns \<noteq> VNone \<and> \<not> isinstance columns TList \<and> type_of columns \<noteq> TStr \<longrightarrow>
        check_from_dataset [dataset, columns, freq_range, top_k, special_tokens, special_first] c =
          Inl (TypeViolation (Unmet (VStr ''col_0'') (OfType [TStr]))))
   \<and> (check_from_dataset ps c = Inr c' \<longrightarrow> c' = c)
   \<and> (new_method check_from_dataset sig wrapped c s = (Inr r, s') \<longrightarrow> wrapped c s = (r, s'))"
proof -
  have 1: "from_dataset_columns columns =
        (if type_of columns = TStr then Inr (VList [columns])
         else Inl (TypeViolation (Unmet (VStr ''col_0'') (OfType [TStr]))))"
    if "columns \<noteq> VNone \<and> \<not> isinstance columns TList"
    using that by (simp add: from_dataset_columns_def type_check_def)
  have 2: "check_from_dataset [dataset, columns, freq_range, top_k, special_tokens, special_first] c =
          Inl (TypeViolation (Unmet (VStr ''col_0'') (OfType [TStr])))"
    if "columns \<noteq> VNone \<and> \<not> isinstance columns TList \<and> type_of columns \<noteq> TStr"
    using that 1 by (simp add: check_from_dataset_def)
  have 3: "c' = c" if "check_from_dataset ps c = Inr c'" for ps c'
    using that by (rule check_from_dataset_same_call)
  have 4: "wrapped c s = (r, s')" if "new_method check_from_dataset sig wrapped c s = (Inr r, s')"
  proof (cases "parse_user_args sig c")
    case (Inl e)
    with that show ?thesis by (simp add: new_method_def)
  next
    case (Inr qs)
    show ?thesis
    proof (cases "check_from_dataset qs c")
      case (Inl e)
      with that Inr show ?thesis by (simp add: new_method_def)
    next
      case c'': (Inr c'')
      with 3 have "c'' = c" by blast
      with that Inr c'' show ?thesis
        by (cases "wrapped c s") (simp add: new_method_def)
    qed
  qed
  show ?thesis
  proof (intro conjI impI)
    assume "columns \<noteq> VNone \<and> \<not> isinstance columns TList"
    then show "from_dataset_columns columns =
        (if type_of columns = TStr then Inr (VList [columns])
         else Inl (TypeViolation (Unmet (VStr ''col_0'') (OfType [TStr]))))" by (rule 1)
  next
    assume "columns \<noteq> VNone \<and> \<not> isinstance columns TList \<and> type_of columns \<noteq> TStr"
    then show "check_from_dataset [dataset, columns, freq_range, top_k, special_tokens, special_first] c =
          Inl (TypeViolation (Unmet (VStr ''col_0'') (OfType [TStr])))" by (rule 2)
  next
    assume "check_from_dataset ps c = Inr c'"
    then show "c' = c" by (rule 3)
  next
    assume "new_method check_from_dataset sig wrapped c s = (Inr r, s')"
    then show "wrapped c s = (r, s')" by (rule 4)
  qed
qed

text \<open>The theorem at the column \<^verbatim>\<open>"text"\<close>, which passes, and at the column 3, which fails.\<close>

theorem C5_check_from_dataset_columns_witness:
  "VStr ''text'' \<noteq> VNone \<and> \<not> isinstance (VStr ''text'') TList
   \<and> from_dataset_columns (VStr ''text'') = Inr (VList [VStr ''text''])
   \<and> VInt 3 \<noteq> VNone \<and> \<not> isinstance (VInt 3) TList \<and> type_of (VInt 3) \<noteq> TStr
   \<and> check_from_dataset [VNone, VInt 3, VNone, VNone, VNone, VBool True]
       \<lparr>args = [VNone, VInt 3], kwargs = []\<rparr> =
       Inl (TypeViolation (Unmet (VStr ''col_0'') (OfType [TStr])))
   \<and> check_from_dataset [VNone, VStr ''text'', VNone, VNone, VNone, VBool True]
       \<lparr>args = [VNone, VStr ''text''], kwargs = []\<rparr> =
       Inr \<lparr>args = [VNone, VStr ''text''], kwargs = []\<rparr>
   \<and> new_method check_from_dataset
       [(''dataset'', None), (''columns'', Some VNone), (''freq_range'', Some VNone),
        (''top_k'', Some VNone), (''special_tokens'', Some VNone),
        (''special_first'', Some (VBool True))]
       Pair \<lparr>args = [VNone, VStr ''text''], kwargs = []\<rparr> () =
     (Inr \<lparr>args = [VNone, VStr ''text''], kwargs = []\<rparr>, ())
   \<and> Pair \<lparr>args = [VNone, VStr ''text''], kwargs = []\<rparr> () =
       (\<lparr>args = [VNone, VStr ''text''], kwargs = []\<rparr>, ())"
proof -
  let ?c = "\<lparr>args = [VNone, VStr ''text''], kwargs = []\<rparr>"
  let ?sig = "[(''dataset'', None), (''columns'', Some VNone), (''freq_range'', Some VNone),
        (''top_k'', Some VNone), (''special_tokens'', Some VNone),
        (''special_first'', Some (VBool True))]"
  have a: "VStr ''text'' \<noteq> VNone \<and> \<not> isinstance (VStr ''text'') TList"
    by (simp add: isinstance_def)
  have b: "VInt 3 \<noteq> VNone \<and> \<not> isinstance (VInt 3) TList \<and> type_of (VInt 3) \<noteq> TStr"
    by (simp add: isinstance_def)
  have r: "check_from_dataset [VNone, VStr ''text'', VNone, VNone, VNone, VBool True] ?c = Inr ?c"
    by (simp add: check_from_dataset_def from_dataset_columns_def from_dataset_freq_range_def
          type_check_def isinstance_def)
  have n: "new_method check_from_dataset ?sig Pair ?c () = (Inr ?c, ())"
    using r by (simp add: new_method_def parse_user_args_def)
  note t1 = C5_check_from_dataset_columns [where columns = "VStr ''text''" and c = ?c
              and ps = "[VNone, VStr ''text'', VNone, VNone, VNone, VBool True]" and c' = ?c
              and sig = ?sig and wrapped = Pair and s = "()" and r = ?c and s' = "()"]
  note t2 = C5_check_from_dataset_columns [where columns = "VInt 3"
              and c = "\<lparr>args = [VNone, VInt 3], kwargs = []\<rparr>" and dataset = VNone
              and freq_range = VNone and top_k = VNone and special_tokens = VNone
              and special_first = "VBool True"]
  have 1: "from_dataset_columns (VStr ''text'') = Inr (VList [VStr ''text''])"
    using t1 [THEN conjunct1] a by simp
  have 2: "check_from_dataset [VNone, VInt 3, VNone, VNone, VNone, VBool True]
       \<lparr>args = [VNone, VInt 3], kwargs = []\<rparr> =
       Inl (TypeViolation (Unmet (VStr ''col_0'') (OfType [TStr])))"
    using t2 [THEN conjunct2, THEN conjunct1] b by simp
  have 3: "Pair ?c () = (?c, ())" using t1 [THEN conjunct2, THEN conjunct2, THEN conjunct2] n by simp
  show ?thesis
    by (intro conjI) (use a b 1 2 r n 3 in simp_all)
qed

subsection \<open>The name in the violation of \<^verbatim>\<open>special_first\<close>\<close>

text \<open>
  Claim C6 says that every violation names the offending parameter, in particular that
  \<^verbatim>\<open>check_from_file\<close> names \<^verbatim>\<open>special_first\<close> when it rejects a non-boolean value. At
  \<^verbatim>\<open>special_first = 1\<close> the violation of \<^verbatim>\<open>check_from_file\<close> carries the value 1 in
  the place of the name, since the source hands the value over as the name; the same
  check in \<^verbatim>\<open>check_from_list\<close> carries the name \<^verbatim>\<open>special_first\<close>.
\<close>

theorem C6_check_from_file_special_first:
  "check_from_file [VStr ''vocab.txt'', VStr '','', VNone, VNone, VInt 1]
     \<lparr>args = [VStr ''vocab.txt'', VStr '','', VNone, VNone, VInt 1], kwargs = []\<rparr> =
     Inl (TypeViolation (Unmet (VInt 1) (OfType [TBool])))
   \<and> Unmet (VInt 1) (OfType [TBool]) \<noteq> Unmet (VStr ''special_first'') (OfType [TBool])
   \<and> check_from_list [VList [], VNone, VInt 1]
       \<lparr>args = [VList [], VNone, VInt 1], kwargs = []\<rparr> =
     Inl (TypeViolation (Unmet (VStr ''special_first'') (OfType [TBool])))"
  by (simp add: check_from_file_def check_from_list_def check_unique_list_of_words_def
        type_check_def)

subsection \<open>A violation stops the call\<close>

lemma new_method_parse_fails:
  "parse_user_args sig c = Inl e \<Longrightarrow> new_method checks sig wrapped c s = (Inl e, s)"
  by (simp add: new_method_def)

lemma new_method_check_fails:
  "parse_user_args sig c = Inr ps \<Longrightarrow> checks ps c = Inl e \<Longrightarrow>
   new_method checks sig wrapped c s = (Inl e, s)"
  by (simp add: new_method_def)

lemma new_method_Inl:
  assumes "fst (new_method checks sig wrapped c s) = Inl e"
  shows "new_method checks sig wrapped c s = (Inl e, s)"
proof (cases "parse_user_args sig c")
  case (Inl e')
  with assms show ?thesis by (simp add: new_method_def)
next
  case (Inr ps)
  show ?thesis
  proof (cases "checks ps c")
    case (Inl e')
    with assms Inr show ?thesis by (simp add: new_method_def)
  next
    case c': (Inr c')
    with assms Inr show ?thesis
      by (cases "wrapped c' s") (simp add: new_method_def)
  qed
qed

text \<open>
  Each library checker and each loop of a guard is the run of its predicates, in order.
\<close>

lemma first_violation_append:
  "first_violation (ps @ qs) =
     (case first_violation ps of Some e \<Rightarrow> Some e | None \<Rightarrow> first_violation qs)"
  by (induction ps) simp_all

lemma run_contract_Nil: "run_contract [] x = Inr x"
  by (simp add: run_contract_def)

lemma then_do_run_contract:
  "then_do (run_contract ps x) (run_contract qs y) = run_contract (ps @ qs) y"
  by (simp add: run_contract_def first_violation_append then_do_def split: option.splits)

lemma if_run_contract:
  "(if b then run_contract ps x else Inr x) = run_contract (if b then ps else []) x"
  by (simp add: run_contract_Nil)

lemma raise_if_run: "raise_if cond e = run_contract [(cond, e)] ()"
  by (simp add: raise_if_def run_contract_def)

lemma type_check_run: "type_check v types name = run_contract [wrong_type v types name] ()"
  by (simp add: type_check_def run_contract_def wrong_type_def)

lemma check_value_run:
  "check_value v (lo, hi) name = run_contract (outside v lo hi name) ()"
  by (simp add: check_value_def run_contract_def outside_def split: option.splits)

lemma check_positive_run: "check_positive v name = run_contract (not_positive v name) ()"
  by (simp add: check_positive_def run_contract_def not_positive_def split: option.splits)

lemma check_uint32_run: "check_uint32 v = run_contract (not_uint32 v) ()"
  unfolding check_uint32_def not_uint32_def type_check_run check_value_run then_do_run_contract
  by simp

lemmas run_eqs = raise_if_run type_check_run check_value_run check_positive_run check_uint32_run

lemma then_do_run_Inr: "then_do (run_contract ps x) (Inr c) = run_contract ps c"
  by (simp add: run_contract_def then_do_def split: option.splits)


lemma then_do_run_then:
  "then_do (run_contract ps x) (then_do (run_contract qs y) b) =
   then_do (run_contract (ps @ qs) y) b"
  by (simp add: run_contract_def first_violation_append then_do_def split: option.splits)

lemma from_dict_loop_run:
  "from_dict_loop kvs =
     run_contract
       (concat (map (\<lambda>(word, word_id).
                      wrong_type word [TStr] (VStr ''word'')
                      # wrong_type word_id [TInt] (VStr ''word_id'')
                      # outside word_id 0 INT32_MAX (VStr ''word_id''))
                kvs)) ()"
proof (induction kvs)
  case Nil
  show ?case by (simp add: run_contract_Nil)
next
  case (Cons kv kvs)
  obtain word word_id where kv: "kv = (word, word_id)" by (cases kv)
  show ?case
    unfolding kv from_dict_loop.simps Cons.IH run_eqs then_do_run_contract
    by simp
qed

lemma grams_loop_run:
  "grams_loop i grams =
     run_contract
       (concat (map (\<lambda>(i, gram).
                      wrong_type gram [TInt] (VStr (''gram['' @ str_nat i @ '']''))
                      # not_positive gram (VStr (''gram_'' @ str_nat i)))
                (List.enumerate i grams))) ()"
proof (induction grams arbitrary: i)
  case Nil
  show ?case by (simp add: run_contract_Nil)
next
  case (Cons gram grams)
  show ?case
    unfolding grams_loop.simps Cons.IH run_eqs then_do_run_contract
    by simp
qed

lemma unique_words_loop_run:
  "unique_words_loop ws seen name =
     (case first_violation (contract_words seen ws name) of
        Some e \<Rightarrow> Inl e
      | None \<Rightarrow> Inr (seen \<union> set (map str_of ws)))"
proof (induction ws arbitrary: seen)
  case Nil
  show ?case by simp
next
  case (Cons w ws)
  show ?case
    by (simp add: Cons.IH type_check_def wrong_type_def split: option.splits)
qed

lemma check_unique_run:
  "check_unique_list_of_words v name =
     (case first_violation (contract_word_list v name) of
        Some e \<Rightarrow> Inl e
      | None \<Rightarrow> Inr (words v))"
  by (simp add: check_unique_list_of_words_def contract_word_list_def unique_words_loop_run
        type_check_def wrong_type_def words_def split: option.splits)

lemma then_do_check_unique:
  "then_do (if cond then check_unique_list_of_words v name else Inr S) b =
   then_do (run_contract (if cond then contract_word_list v name else []) ()) b"
  by (simp add: check_unique_run run_contract_def then_do_def split: option.splits)

lemma from_dataset_columns_run:
  "then_do (from_dataset_columns columns) b =
   then_do (run_contract (contract_columns columns) ()) b"
  by (simp add: from_dataset_columns_def contract_columns_def type_check_def wrong_type_def
        run_contract_def then_do_def)

lemma from_dataset_freq_range_run:
  "from_dataset_freq_range freq_range = run_contract (contract_freq_range freq_range) ()"
proof (cases "freq_range = VNone")
  case True
  then show ?thesis
    by (simp add: from_dataset_freq_range_def contract_freq_range_def run_contract_Nil)
next
  case False
  have "from_dataset_freq_range freq_range =
      then_do (type_check freq_range [TTuple] (VStr ''freq_range''))
       (then_do (raise_if (length (items freq_range) \<noteq> 2)
                   (ValueViolation (Text
                      ''freq_range needs to be a tuple of 2 integers or an int and a None.'')))
       (then_do (raise_if (list_ex (\<lambda>num. num \<noteq> VNone \<and> \<not> isinstance num TInt) (items freq_range))
                   (ValueViolation (Text
                      ''freq_range needs to be either None or a tuple of 2 integers or an int and a None.'')))
          (raise_if (isinstance (item freq_range 0) TInt \<and> isinstance (item freq_range 1) TInt
                     \<and> (int_of (item freq_range 0) > int_of (item freq_range 1)
                            \<or> int_of (item freq_range 0) < 0))
                  (ValueViolation (Text
                     ''frequency range [a,b] should be 0 <= a <= b (a,b are inclusive).'')))))"
    using False unfolding from_dataset_freq_range_def by (simp add: raise_if_def)
  also have "\<dots> = run_contract (contract_freq_range freq_range) ()"
    using False
    unfolding contract_freq_range_def run_eqs then_do_run_contract list_ex_iff
    by simp
  finally show ?thesis .
qed


lemma lookup_refines:
  "check_lookup [vocab, unknown_token] c = run_contract (contract_lookup vocab unknown_token) c"
  unfolding check_lookup_def contract_lookup_def list.case run_eqs if_run_contract
    then_do_run_then then_do_run_contract then_do_run_Inr
  by simp

lemma jieba_init_refines:
  "check_jieba_init [hmm_path, mp_path, other, with_offsets] c = run_contract (contract_jieba_init hmm_path mp_path with_offsets) c"
  unfolding check_jieba_init_def contract_jieba_init_def list.case run_eqs if_run_contract
    then_do_run_then then_do_run_contract then_do_run_Inr
  by simp

lemma jieba_add_word_refines:
  "check_jieba_add_word [word, freq] c = run_contract (contract_jieba_add_word word freq) c"
  unfolding check_jieba_add_word_def contract_jieba_add_word_def list.case run_eqs if_run_contract
    then_do_run_then then_do_run_contract then_do_run_Inr
  by simp

lemma with_offsets_refines:
  "check_with_offsets [with_offsets] c = run_contract (contract_with_offsets with_offsets) c"
  unfolding check_with_offsets_def contract_with_offsets_def list.case run_eqs if_run_contract
    then_do_run_then then_do_run_contract then_do_run_Inr
  by simp

lemma unicode_script_tokenizer_refines:
  "check_unicode_script_tokenizer [keep_whitespace, with_offsets] c = run_contract (contract_unicode_script_tokenizer keep_whitespace with_offsets) c"
  unfolding check_unicode_script_tokenizer_def contract_unicode_script_tokenizer_def list.case run_eqs if_run_contract
    then_do_run_then then_do_run_contract then_do_run_Inr
  by simp

lemma wordpiece_tokenizer_refines:
  "check_wordpiece_tokenizer [vocab, suffix_indicator, max_bytes_per_token, unknown_token, with_offsets] c = run_contract (contract_wordpiece_tokenizer vocab suffix_indicator max_bytes_per_token unknown_token with_offsets) c"
  unfolding check_wordpiece_tokenizer_def contract_wordpiece_tokenizer_def list.case run_eqs if_run_contract
    then_do_run_then then_do_run_contract then_do_run_Inr
  by simp

lemma regex_tokenizer_refines:
  "check_regex_tokenizer [delim_pattern, keep_delim_pattern, with_offsets] c = run_contract (contract_regex_tokenizer delim_pattern keep_delim_pattern with_offsets) c"
  unfolding check_regex_tokenizer_def contract_regex_tokenizer_def list.case run_eqs if_run_contract
    then_do_run_then then_do_run_contract then_do_run_Inr
  by simp

lemma basic_tokenizer_refines:
  "check_basic_tokenizer [lower_case, keep_whitespace, other, preserve_unused, with_offsets] c = run_contract (contract_basic_tokenizer lower_case keep_whitespace preserve_unused with_offsets) c"
  unfolding check_basic_tokenizer_def contract_basic_tokenizer_def list.case run_eqs if_run_contract
    then_do_run_then then_do_run_contract then_do_run_Inr
  by simp

lemma bert_tokenizer_refines:
  "check_bert_tokenizer [vocab, suffix_indicator, max_bytes_per_token, unknown_token, lower_case, keep_whitespace, other, preserve_unused_token, with_offsets] c = run_contract (contract_bert_tokenizer vocab suffix_indicator max_bytes_per_token unknown_token lower_case keep_whitespace preserve_unused_token with_offsets) c"
  unfolding check_bert_tokenizer_def contract_bert_tokenizer_def list.case run_eqs if_run_contract
    then_do_run_then then_do_run_contract then_do_run_Inr
  by simp

lemma python_tokenizer_refines:
  "check_python_tokenizer [tokenizer] c = run_contract (contract_python_tokenizer tokenizer) c"
  unfolding check_python_tokenizer_def contract_python_tokenizer_def list.case run_eqs if_run_contract
    then_do_run_then then_do_run_contract then_do_run_Inr
  by simp

lemma to_number_refines:
  "check_to_number number_type [data_type] c =
     run_contract (contract_to_number number_type data_type) c"
  unfolding check_to_number_def contract_to_number_def list.case run_eqs
    then_do_run_then then_do_run_contract then_do_run_Inr
  by simp

lemma jieba_add_dict_refines: "check_jieba_add_dict ps c = run_contract [] c"
  by (simp add: check_jieba_add_dict_def run_contract_Nil)

lemma pair_truncate_refines: "check_pair_truncate ps c = run_contract [] c"
  by (simp add: check_pair_truncate_def run_contract_Nil)

lemma from_dict_refines:
  "check_from_dict [word_dict] c = run_contract (contract_from_dict word_dict) c"
  unfolding check_from_dict_def contract_from_dict_def list.case from_dict_loop_run run_eqs
    then_do_run_then then_do_run_contract then_do_run_Inr
  by simp

lemma from_file_refines:
  "check_from_file [file_path, delimiter, vocab_size, special_tokens, special_first] c =
     run_contract
       (contract_from_file file_path delimiter vocab_size special_tokens special_first) c"
  unfolding check_from_file_def contract_from_file_def list.case type_check_list.simps
    then_do_check_unique run_eqs if_run_contract
    then_do_run_then then_do_run_contract then_do_run_Inr
  by (simp add: run_contract_Nil then_do_run_Inr)

lemma from_dataset_refines:
  "check_from_dataset [dataset, columns, freq_range, top_k, special_tokens, special_first] c =
     run_contract
       (contract_from_dataset columns freq_range top_k special_tokens special_first) c"
  unfolding check_from_dataset_def contract_from_dataset_def list.case
    from_dataset_columns_run from_dataset_freq_range_run then_do_check_unique
    run_eqs if_run_contract
    then_do_run_then then_do_run_contract then_do_run_Inr
  by simp

lemma ngram_refines:
  "check_ngram [n, left_pad, right_pad, separator] c =
     run_contract (contract_ngram n left_pad right_pad separator)
       (ngram_bundle n left_pad right_pad separator c)"
  unfolding check_ngram_def contract_ngram_def contract_grams_def ngram_bundle_def list.case
    Let_def normalized_n_def [symmetric] grams_loop_run run_eqs
    then_do_run_then then_do_run_contract
  by (simp add: run_contract_def then_do_def split: option.splits)

lemma from_list_refines:
  "check_from_list [word_list, special_tokens, special_first] c =
     run_contract (contract_from_list word_list special_tokens special_first) c"
proof (cases "first_violation (contract_word_list word_list ''word_list'')")
  case (Some e)
  then show ?thesis
    by (simp add: check_from_list_def contract_from_list_def check_unique_run run_contract_def
          first_violation_append)
next
  case None
  note wl = None
  show ?thesis
  proof (cases "special_tokens = VNone")
    case True
    with wl show ?thesis
      by (simp add: check_from_list_def contract_from_list_def check_unique_run run_contract_def
            first_violation_append type_check_def wrong_type_def)
  next
    case False
    show ?thesis
    proof (cases "first_violation (contract_word_list special_tokens ''special_tokens'')")
      case (Some e)
      with wl False show ?thesis
        by (simp add: check_from_list_def contract_from_list_def check_unique_run
              run_contract_def first_violation_append)
    next
      case None
      with wl False show ?thesis
        by (simp add: check_from_list_def contract_from_list_def check_unique_run
              run_contract_def first_violation_append type_check_def wrong_type_def Let_def)
    qed
  qed
qed

text \<open>
  What the run of a contract returns: the violation of the first predicate that fails,
  whatever the predicates after it are, and the value to go on with only when no
  predicate fails.
\<close>

lemma first_violation_None_iff: "first_violation ps = None \<longleftrightarrow> (\<forall>p \<in> set ps. \<not> fst p)"
  by (induction ps) simp_all

lemma first_violation_Some_iff:
  "first_violation ps = Some e \<longleftrightarrow>
     (\<exists>qs rs. ps = qs @ (True, e) # rs \<and> (\<forall>q \<in> set qs. \<not> fst q))"
proof (induction ps)
  case Nil
  show ?case by simp
next
  case (Cons p ps)
  show ?case
  proof (cases "fst p")
    case True
    have "(\<exists>qs rs. p # ps = qs @ (True, e) # rs \<and> (\<forall>q \<in> set qs. \<not> fst q)) \<longleftrightarrow> snd p = e"
    proof
      assume "\<exists>qs rs. p # ps = qs @ (True, e) # rs \<and> (\<forall>q \<in> set qs. \<not> fst q)"
      then obtain qs rs where d: "p # ps = qs @ (True, e) # rs" "\<forall>q \<in> set qs. \<not> fst q"
        by blast
      show "snd p = e"
      proof (cases qs)
        case Nil
        with d show ?thesis by auto
      next
        case (Cons q qs')
        with d True show ?thesis by auto
      qed
    next
      assume "snd p = e"
      with True have "p # ps = [] @ (True, e) # ps" by (cases p) simp
      then show "\<exists>qs rs. p # ps = qs @ (True, e) # rs \<and> (\<forall>q \<in> set qs. \<not> fst q)"
        by (intro exI [of _ "[]"] exI [of _ ps]) simp
    qed
    with True show ?thesis by simp
  next
    case False
    have "(\<exists>qs rs. p # ps = qs @ (True, e) # rs \<and> (\<forall>q \<in> set qs. \<not> fst q)) \<longleftrightarrow>
          (\<exists>qs rs. ps = qs @ (True, e) # rs \<and> (\<forall>q \<in> set qs. \<not> fst q))"
    proof
      assume "\<exists>qs rs. p # ps = qs @ (True, e) # rs \<and> (\<forall>q \<in> set qs. \<not> fst q)"
      then obtain qs rs where d: "p # ps = qs @ (True, e) # rs" "\<forall>q \<in> set qs. \<not> fst q"
        by blast
      show "\<exists>qs rs. ps = qs @ (True, e) # rs \<and> (\<forall>q \<in> set qs. \<not> fst q)"
      proof (cases qs)
        case Nil
        with d False show ?thesis by auto
      next
        case (Cons q qs')
        with d have "ps = qs' @ (True, e) # rs" "\<forall>q \<in> set qs'. \<not> fst q" by auto
        then show ?thesis by blast
      qed
    next
      assume "\<exists>qs rs. ps = qs @ (True, e) # rs \<and> (\<forall>q \<in> set qs. \<not> fst q)"
      then obtain qs rs where d: "ps = qs @ (True, e) # rs" "\<forall>q \<in> set qs. \<not> fst q"
        by blast
      with False have "p # ps = (p # qs) @ (True, e) # rs" "\<forall>q \<in> set (p # qs). \<not> fst q"
        by auto
      then show "\<exists>qs rs. p # ps = qs @ (True, e) # rs \<and> (\<forall>q \<in> set qs. \<not> fst q)"
        by blast
    qed
    with False Cons.IH show ?thesis by simp
  qed
qed

lemma run_contract_Inl_iff:
  "run_contract ps x = Inl e \<longleftrightarrow>
     (\<exists>qs rs. ps = qs @ (True, e) # rs \<and> (\<forall>q \<in> set qs. \<not> fst q))"
  unfolding first_violation_Some_iff [symmetric]
  by (simp add: run_contract_def split: option.splits)

lemma run_contract_Inr_iff:
  "run_contract ps x = Inr y \<longleftrightarrow> y = x \<and> (\<forall>p \<in> set ps. \<not> fst p)"
  unfolding first_violation_None_iff [symmetric]
  by (auto simp: run_contract_def split: option.splits)

text \<open>
  Claim C7. Every guard of the file is the run of its contract: when a predicate fails,
  the guard returns the violation of the first failing predicate, whatever the predicates
  after it are, and it passes only when no predicate fails. In the wrapper, a failure of
  the binding or of the checks is the result, with the state of the engine untouched
  whatever the wrapped method is, so the wrapped method has not run, and a violation is
  never turned into a result. In \<^verbatim>\<open>check_from_list\<close> a violation of the word list is the
  result whatever the special tokens and the flag are.
\<close>

theorem C7_fail_fast:
  "(run_contract preds x = Inl e \<longleftrightarrow>
      (\<exists>qs rs. preds = qs @ (True, e) # rs \<and> (\<forall>q \<in> set qs. \<not> fst q)))
   \<and> (run_contract preds x = Inr y \<longleftrightarrow> y = x \<and> (\<forall>p \<in> set preds. \<not> fst p))
   \<and> check_lookup [vocab, unknown_token] c =
       run_contract (contract_lookup vocab unknown_token) c
   \<and> check_from_file [file_path, delimiter, vocab_size, special_tokens, special_first] c =
       run_contract
         (contract_from_file file_path delimiter vocab_size special_tokens special_first) c
   \<and> check_from_list [word_list, special_tokens, special_first] c =
       run_contract (contract_from_list word_list special_tokens special_first) c
   \<and> check_from_dict [word_dict] c = run_contract (contract_from_dict word_dict) c
   \<and> check_jieba_init [hmm_path, mp_path, user_dict, with_offsets] c =
       run_contract (contract_jieba_init hmm_path mp_path with_offsets) c
   \<and> check_jieba_add_word [word, freq] c = run_contract (contract_jieba_add_word word freq) c
   \<and> check_jieba_add_dict params c = run_contract [] c
   \<and> check_with_offsets [with_offsets] c = run_contract (contract_with_offsets with_offsets) c
   \<and> check_unicode_script_tokenizer [keep_whitespace, with_offsets] c =
       run_contract (contract_unicode_script_tokenizer keep_whitespace with_offsets) c
   \<and> check_wordpiece_tokenizer
         [vocab, suffix_indicator, max_bytes_per_token, unknown_token, with_offsets] c =
       run_contract
         (contract_wordpiece_tokenizer vocab suffix_indicator max_bytes_per_token
            unknown_token with_offsets) c
   \<and> check_regex_tokenizer [delim_pattern, keep_delim_pattern, with_offsets] c =
       run_contract (contract_regex_tokenizer delim_pattern keep_delim_pattern with_offsets) c
   \<and> check_basic_tokenizer
         [lower_case, keep_whitespace, normalization_form, preserve_unused_token, with_offsets] c =
       run_contract
         (contract_basic_tokenizer lower_case keep_whitespace preserve_unused_token
            with_offsets) c
   \<and> check_bert_tokenizer
         [vocab, suffix_indicator, max_bytes_per_token, unknown_token, lower_case,
          keep_whitespace, normalization_form, preserve_unused_token, with_offsets] c =
       run_contract
         (contract_bert_tokenizer vocab suffix_indicator max_bytes_per_token unknown_token
            lower_case keep_whitespace preserve_unused_token with_offsets) c
   \<and> check_from_dataset [dataset, columns, freq_range, top_k, special_tokens, special_first] c =
       run_contract
         (contract_from_dataset columns freq_range top_k special_tokens special_first) c
   \<and> check_ngram [n, left_pad, right_pad, separator] c =
       run_contract (contract_ngram n left_pad right_pad separator)
         (ngram_bundle n left_pad right_pad separator c)
   \<and> check_pair_truncate params c = run_contract [] c
   \<and> check_to_number number_type [data_type] c =
       run_contract (contract_to_number number_type data_type) c
   \<and> check_python_tokenizer [tokenizer] c =
       run_contract (contract_python_tokenizer tokenizer) c
   \<and> (parse_user_args sig c = Inl e \<longrightarrow> new_method checks sig wrapped c s = (Inl e, s))
   \<and> (parse_user_args sig c = Inr params \<and> checks params c = Inl e \<longrightarrow>
        new_method checks sig wrapped c s = (Inl e, s))
   \<and> (fst (new_method checks sig wrapped c s) = Inl e \<longrightarrow>
        new_method checks sig wrapped c s = (Inl e, s))
   \<and> (check_unique_list_of_words word_list ''word_list'' = Inl e \<longrightarrow>
        check_from_list [word_list, special_tokens, special_first] c = Inl e)"
proof (intro conjI impI)
  show "run_contract preds x = Inl e \<longleftrightarrow>
      (\<exists>qs rs. preds = qs @ (True, e) # rs \<and> (\<forall>q \<in> set qs. \<not> fst q))"
    by (rule run_contract_Inl_iff)
  show "run_contract preds x = Inr y \<longleftrightarrow> y = x \<and> (\<forall>p \<in> set preds. \<not> fst p)"
    by (rule run_contract_Inr_iff)
  show "check_lookup [vocab, unknown_token] c =
       run_contract (contract_lookup vocab unknown_token) c"
    by (rule lookup_refines)
  show "check_from_file [file_path, delimiter, vocab_size, special_tokens, special_first] c =
       run_contract
         (contract_from_file file_path delimiter vocab_size special_tokens special_first) c"
    by (rule from_file_refines)
  show "check_from_list [word_list, special_tokens, special_first] c =
       run_contract (contract_from_list word_list special_tokens special_first) c"
    by (rule from_list_refines)
  show "check_from_dict [word_dict] c = run_contract (contract_from_dict word_dict) c"
    by (rule from_dict_refines)
  show "check_jieba_init [hmm_path, mp_path, user_dict, with_offsets] c =
       run_contract (contract_jieba_init hmm_path mp_path with_offsets) c"
    by (rule jieba_init_refines)
  show "check_jieba_add_word [word, freq] c = run_contract (contract_jieba_add_word word freq) c"
    by (rule jieba_add_word_refines)
  show "check_jieba_add_dict params c = run_contract [] c"
    by (rule jieba_add_dict_refines)
  show "check_with_offsets [with_offsets] c = run_contract (contract_with_offsets with_offsets) c"
    by (rule with_offsets_refines)
  show "check_unicode_script_tokenizer [keep_whitespace, with_offsets] c =
       run_contract (contract_unicode_script_tokenizer keep_whitespace with_offsets) c"
    by (rule unicode_script_tokenizer_refines)
  show "check_wordpiece_tokenizer
         [vocab, suffix_indicator, max_bytes_per_token, unknown_token, with_offsets] c =
       run_contract
         (contract_wordpiece_tokenizer vocab suffix_indicator max_bytes_per_token
            unknown_token with_offsets) c"
    by (rule wordpiece_tokenizer_refines)
  show "check_regex_tokenizer [delim_pattern, keep_delim_pattern, with_offsets] c =
       run_contract (contract_regex_tokenizer delim_pattern keep_delim_pattern with_offsets) c"
    by (rule regex_tokenizer_refines)
  show "check_basic_tokenizer
         [lower_case, keep_whitespace, normalization_form, preserve_unused_token, with_offsets] c =
       run_contract
         (contract_basic_tokenizer lower_case keep_whitespace preserve_unused_token
            with_offsets) c"
    by (rule basic_tokenizer_refines)
  show "check_bert_tokenizer
         [vocab, suffix_indicator, max_bytes_per_token, unknown_token, lower_case,
          keep_whitespace, normalization_form, preserve_unused_token, with_offsets] c =
       run_contract
         (contract_bert_tokenizer vocab suffix_indicator max_bytes_per_token unknown_token
            lower_case keep_whitespace preserve_unused_token with_offsets) c"
    by (rule bert_tokenizer_refines)
  show "check_from_dataset [dataset, columns, freq_range, top_k, special_tokens, special_first] c =
       run_contract
         (contract_from_dataset columns freq_range top_k special_tokens special_first) c"
    by (rule from_dataset_refines)
  show "check_ngram [n, left_pad, right_pad, separator] c =
       run_contract (contract_ngram n left_pad right_pad separator)
         (ngram_bundle n left_pad right_pad separator c)"
    by (rule ngram_refines)
  show "check_pair_truncate params c = run_contract [] c"
    by (rule pair_truncate_refines)
  show "check_to_number number_type [data_type] c =
       run_contract (contract_to_number number_type data_type) c"
    by (rule to_number_refines)
  show "check_python_tokenizer [tokenizer] c =
       run_contract (contract_python_tokenizer tokenizer) c"
    by (rule python_tokenizer_refines)
next
  assume "parse_user_args sig c = Inl e"
  then show "new_method checks sig wrapped c s = (Inl e, s)"
    by (rule new_method_parse_fails)
next
  assume "parse_user_args sig c = Inr params \<and> checks params c = Inl e"
  then show "new_method checks sig wrapped c s = (Inl e, s)"
    by (simp add: new_method_check_fails)
next
  assume "fst (new_method checks sig wrapped c s) = Inl e"
  then show "new_method checks sig wrapped c s = (Inl e, s)"
    by (rule new_method_Inl)
next
  assume "check_unique_list_of_words word_list ''word_list'' = Inl e"
  then show "check_from_list [word_list, special_tokens, special_first] c = Inl e"
    by (simp add: check_from_list_def)
qed

text \<open>
  The theorem at the word list \<^verbatim>\<open>["a","b","a"]\<close> with special tokens that are not even a
  list, and at a call without arguments, with a wrapped method that logs its calls: the
  log stays empty. A run of three predicates returns the violation of the second, the
  first that fails.
\<close>

theorem C7_fail_fast_witness:
  "parse_user_args
     [(''word_list'', None), (''special_tokens'', Some VNone), (''special_first'', Some (VBool True))]
     \<lparr>args = [VList [VStr ''a'', VStr ''b'', VStr ''a''], VInt 7], kwargs = []\<rparr> =
     Inr [VList [VStr ''a'', VStr ''b'', VStr ''a''], VInt 7, VBool True]
   \<and> check_unique_list_of_words (VList [VStr ''a'', VStr ''b'', VStr ''a'']) ''word_list'' =
       Inl (ValueViolation (Text ''word_list contains duplicate word: a.''))
   \<and> run_contract
       (contract_from_list (VList [VStr ''a'', VStr ''b'', VStr ''a'']) (VInt 7) (VBool True))
       \<lparr>args = [VList [VStr ''a'', VStr ''b'', VStr ''a''], VInt 7], kwargs = []\<rparr> =
     Inl (ValueViolation (Text ''word_list contains duplicate word: a.''))
   \<and> new_method check_from_list
       [(''word_list'', None), (''special_tokens'', Some VNone), (''special_first'', Some (VBool True))]
       (\<lambda>b log. ((), b # log))
       \<lparr>args = [VList [VStr ''a'', VStr ''b'', VStr ''a''], VInt 7], kwargs = []\<rparr> [] =
     (Inl (ValueViolation (Text ''word_list contains duplicate word: a.'')), [])
   \<and> parse_user_args
       [(''word_list'', None), (''special_tokens'', Some VNone), (''special_first'', Some (VBool True))]
       \<lparr>args = [], kwargs = []\<rparr> = Inl ArityViolation
   \<and> new_method check_from_list
       [(''word_list'', None), (''special_tokens'', Some VNone), (''special_first'', Some (VBool True))]
       (\<lambda>b log. ((), b # log)) \<lparr>args = [], kwargs = []\<rparr> [] =
     (Inl ArityViolation, [])
   \<and> run_contract
       [(False, ArityViolation),
        (True, ValueViolation (Text ''word_list contains duplicate word: a.'')),
        (True, ArityViolation)] () =
     Inl (ValueViolation (Text ''word_list contains duplicate word: a.''))
   \<and> run_contract [(False, ArityViolation)] (0::nat) = Inr 0"
proof -
  let ?sig = "[(''word_list'', None), (''special_tokens'', Some VNone),
               (''special_first'', Some (VBool True))]"
  let ?wl = "VList [VStr ''a'', VStr ''b'', VStr ''a'']"
  let ?c = "\<lparr>args = [?wl, VInt 7], kwargs = []\<rparr>"
  let ?e = "ValueViolation (Text ''word_list contains duplicate word: a.'')"
  let ?empty = "\<lparr>args = [], kwargs = []\<rparr>"
  let ?log = "\<lambda>b log. ((), b # log)"
  have p: "parse_user_args ?sig ?c = Inr [?wl, VInt 7, VBool True]"
    by (simp add: parse_user_args_def)
  have u: "check_unique_list_of_words ?wl ''word_list'' = Inl ?e"
    by (simp add: check_unique_list_of_words_def type_check_def)
  have pz: "parse_user_args ?sig ?empty = Inl ArityViolation"
    by (simp add: parse_user_args_def)
  note t = C7_fail_fast [where sig = ?sig and c = ?c and e = ?e and checks = check_from_list
             and wrapped = ?log and s = "[]"
             and params = "[?wl, VInt 7, VBool True]" and word_list = ?wl
             and special_tokens = "VInt 7" and special_first = "VBool True"
             and preds = "[(False, ArityViolation), (True, ?e), (True, ArityViolation)]"
             and x = "()"]
  note tz = C7_fail_fast [where sig = ?sig and c = ?empty and e = ArityViolation
             and checks = check_from_list and wrapped = ?log and s = "[]"
             and preds = "[(False, ArityViolation)]" and x = "0::nat" and y = "0::nat"]
  note f = t [THEN conjunct2, THEN conjunct2, THEN conjunct2, THEN conjunct2, THEN conjunct2, THEN conjunct2, THEN conjunct2, THEN conjunct2, THEN conjunct2, THEN conjunct2, THEN conjunct2, THEN conjunct2, THEN conjunct2, THEN conjunct2, THEN conjunct2, THEN conjunct2, THEN conjunct2, THEN conjunct2, THEN conjunct2, THEN conjunct2, THEN conjunct2, THEN conjunct2, THEN conjunct2, THEN mp, OF u]
  note r = t [THEN conjunct2, THEN conjunct2, THEN conjunct2, THEN conjunct2, THEN conjunct1]
  have rc: "run_contract (contract_from_list ?wl (VInt 7) (VBool True)) ?c = Inl ?e"
    using f unfolding r .
  note n = t [THEN conjunct2, THEN conjunct2, THEN conjunct2, THEN conjunct2, THEN conjunct2, THEN conjunct2, THEN conjunct2, THEN conjunct2, THEN conjunct2, THEN conjunct2, THEN conjunct2, THEN conjunct2, THEN conjunct2, THEN conjunct2, THEN conjunct2, THEN conjunct2, THEN conjunct2, THEN conjunct2, THEN conjunct2, THEN conjunct2, THEN conjunct2, THEN conjunct1, THEN mp, OF conjI, OF p f]
  from n have "fst (new_method check_from_list ?sig ?log ?c []) = Inl ?e" by simp
  note n' = t [THEN conjunct2, THEN conjunct2, THEN conjunct2, THEN conjunct2, THEN conjunct2, THEN conjunct2, THEN conjunct2, THEN conjunct2, THEN conjunct2, THEN conjunct2, THEN conjunct2, THEN conjunct2, THEN conjunct2, THEN conjunct2, THEN conjunct2, THEN conjunct2, THEN conjunct2, THEN conjunct2, THEN conjunct2, THEN conjunct2, THEN conjunct2, THEN conjunct2, THEN conjunct1, THEN mp, OF this]
  note nz = tz [THEN conjunct2, THEN conjunct2, THEN conjunct2, THEN conjunct2, THEN conjunct2, THEN conjunct2, THEN conjunct2, THEN conjunct2, THEN conjunct2, THEN conjunct2, THEN conjunct2, THEN conjunct2, THEN conjunct2, THEN conjunct2, THEN conjunct2, THEN conjunct2, THEN conjunct2, THEN conjunct2, THEN conjunct2, THEN conjunct2, THEN conjunct1, THEN mp, OF pz]
  have "\<exists>qs rs. [(False, ArityViolation), (True, ?e), (True, ArityViolation)]
                   = qs @ (True, ?e) # rs \<and> (\<forall>q \<in> set qs. \<not> fst q)"
    by (intro exI [of _ "[(False, ArityViolation)]"] exI [of _ "[(True, ArityViolation)]"]) simp
  note a = t [THEN conjunct1, THEN iffD2, OF this]
  have "(0::nat) = 0 \<and> (\<forall>p \<in> set [(False, ArityViolation)]. \<not> fst p)" by simp
  note b = tz [THEN conjunct2, THEN conjunct1, THEN iffD2, OF this]
  show ?thesis
    by (intro conjI) (rule p u rc n' pz nz a b)+
qed

end
